theory Spec2Isabelle
  imports Complex_Main
begin

section \<open>JavaScript values\<close>

text \<open>
  The library works on plain JavaScript objects whose properties hold strings, numbers,
  booleans, \<open>Date\<close> objects, \<open>null\<close> or \<open>undefined\<close>. Numbers are modelled in exact
  arithmetic: a number is a real, with no rounding and no infinity, and the not-a-number
  result of a conversion is \<open>None\<close> at the place where the source tests for it. A
  \<open>Date\<close> is its time value in milliseconds, an integer of at most 8.64e15 in absolute
  value; \<open>JDate t\<close> with \<open>t\<close> beyond that range stands for an invalid date, and the
  time value of an invalid date is \<open>None\<close>. A string is a list of characters, each
  standing for one code unit below 256.
\<close>

datatype jsval = JUndefined | JNull | JBool bool | JNum real | JStr string | JDate int

text \<open>An object is a finite map from property names to values.\<close>

type_synonym jsobj = "string \<Rightarrow> jsval option"

text \<open>
  The built-in string parsers of the host are parameters of the model:
  \<open>Number(s)\<close>, \<open>new Date(s).getTime()\<close> and \<open>parseFloat(s)\<close> on a string \<open>s\<close>,
  each with \<open>None\<close> for a not-a-number result.
\<close>

record js_runtime =
  StringToNumber :: "string \<Rightarrow> real option"
  DateParse :: "string \<Rightarrow> int option"
  StringToFloat :: "string \<Rightarrow> real option"

text \<open>Reading a property: a missing property reads as \<open>undefined\<close>.\<close>

definition prop_of :: "jsobj \<Rightarrow> string \<Rightarrow> jsval" where
  "prop_of obj k = (case obj k of None \<Rightarrow> JUndefined | Some v \<Rightarrow> v)"

text \<open>Truthiness, as used by \<open>!v\<close>, \<open>v || w\<close>, \<open>v && w\<close> and \<open>if (v)\<close>.\<close>

fun truthy :: "jsval \<Rightarrow> bool" where
  "truthy JUndefined = False"
| "truthy JNull = False"
| "truthy (JBool b) = b"
| "truthy (JNum r) = (r \<noteq> 0)"
| "truthy (JStr s) = (s \<noteq> [])"
| "truthy (JDate t) = True"

definition js_or :: "jsval \<Rightarrow> jsval \<Rightarrow> jsval" where
  "js_or v w = (if truthy v then v else w)"

text \<open>
  Strict equality \<open>===\<close>. Two \<open>Date\<close> objects are equal only when they are the same
  object; every comparison of the source is between values of different records, so a
  \<open>Date\<close> is never strictly equal to the other operand.
\<close>

fun strict_eq :: "jsval \<Rightarrow> jsval \<Rightarrow> bool" where
  "strict_eq (JDate t) w = False"
| "strict_eq v (JDate t) = False"
| "strict_eq v w = (v = w)"

text \<open>
  \<open>TimeClip\<close>: a time value beyond 8.64e15 milliseconds on either side of the epoch
  is not a time value, and the date that holds it is invalid.
\<close>

definition maxTime :: int where
  "maxTime = 8640000000000000"

definition TimeClip :: "int \<Rightarrow> int option" where
  "TimeClip t = (if \<bar>t\<bar> \<le> maxTime then Some t else None)"

text \<open>\<open>Number(v)\<close>: the numeric conversion of a value.\<close>

fun ToNumber :: "js_runtime \<Rightarrow> jsval \<Rightarrow> real option" where
  "ToNumber rt JUndefined = None"
| "ToNumber rt JNull = Some 0"
| "ToNumber rt (JBool b) = Some (if b then 1 else 0)"
| "ToNumber rt (JNum r) = Some r"
| "ToNumber rt (JStr s) = StringToNumber rt s"
| "ToNumber rt (JDate t) = map_option of_int (TimeClip t)"

text \<open>\<open>parseFloat(v)\<close>: the value is turned into a string and a numeric prefix is read.
  The strings of \<open>undefined\<close>, \<open>null\<close>, the booleans and a date start with a letter.\<close>

fun parseFloat :: "js_runtime \<Rightarrow> jsval \<Rightarrow> real option" where
  "parseFloat rt (JNum r) = Some r"
| "parseFloat rt (JStr s) = StringToFloat rt s"
| "parseFloat rt v = None"

text \<open>
  \<open>new Date(v).getTime()\<close>: the time value of a date, the parse of a string or the
  number of any other value, clipped to the range of time values and truncated towards
  zero.
\<close>

definition trunc :: "real \<Rightarrow> int" where
  "trunc r = (if 0 \<le> r then \<lfloor>r\<rfloor> else \<lceil>r\<rceil>)"

fun new_Date :: "js_runtime \<Rightarrow> jsval \<Rightarrow> int option" where
  "new_Date rt (JDate t) = TimeClip t"
| "new_Date rt (JStr s) = (case DateParse rt s of None \<Rightarrow> None | Some t \<Rightarrow> TimeClip t)"
| "new_Date rt v =
     (case ToNumber rt v of
        None \<Rightarrow> None
      | Some r \<Rightarrow> if \<bar>r\<bar> \<le> real_of_int maxTime then Some (trunc r) else None)"

text \<open>\<open>new Date(n)\<close> for a number that is a time value or not-a-number.\<close>

definition Date_of_time :: "int option \<Rightarrow> int option" where
  "Date_of_time n = (case n of None \<Rightarrow> None | Some t \<Rightarrow> TimeClip t)"

section \<open>Scalar conversion\<close>

definition convertToNumber :: "js_runtime \<Rightarrow> jsval \<Rightarrow> real" where
  "convertToNumber rt v =
     (if v = JNull \<or> v = JUndefined \<or> v = JStr [] then 0
      else (case ToNumber rt v of None \<Rightarrow> 0 | Some num \<Rightarrow> num))"

definition convertToDate :: "js_runtime \<Rightarrow> jsval \<Rightarrow> jsval" where
  "convertToDate rt v =
     (if \<not> truthy v \<or> v = JStr [] then JNull
      else (case new_Date rt v of None \<Rightarrow> JNull | Some t \<Rightarrow> JDate t))"

section \<open>Tokenizer\<close>

text \<open>
  The white space and line terminators that \<open>String.prototype.trim\<close> removes, among
  the code units a character can hold: tab, line feed, vertical tab, form feed, carriage
  return, space and no-break space.
\<close>

definition js_whitespace :: "char \<Rightarrow> bool" where
  "js_whitespace c =
     (c \<in> set [CHR 0x09, CHR 0x0A, CHR 0x0B, CHR 0x0C, CHR 0x0D, CHR 0x20, CHR 0xA0])"

definition trim :: "string \<Rightarrow> string" where
  "trim s = rev (dropWhile js_whitespace (rev (dropWhile js_whitespace s)))"

text \<open>\<open>s.split(sep)\<close> for a separator of one character: never an empty list.\<close>

fun split_str :: "string \<Rightarrow> char \<Rightarrow> string list" where
  "split_str [] sep = [[]]"
| "split_str (c # cs) sep =
     (if c = sep then [] # split_str cs sep
      else (case split_str cs sep of [] \<Rightarrow> [[c]] | w # ws \<Rightarrow> (c # w) # ws))"

definition startsWith :: "string \<Rightarrow> string \<Rightarrow> bool" where
  "startsWith s p = (take (length p) s = p)"

definition substring :: "string \<Rightarrow> nat \<Rightarrow> string" where
  "substring s n = drop n s"

definition tab :: char where
  "tab = CHR 0x09"

definition newline :: char where
  "newline = CHR 0x0A"

datatype js_error = TypeError

text \<open>
  Assigning a string to the property \<open>__proto__\<close> of a plain object creates no
  property; every other name is bound.
\<close>

definition set_prop :: "jsobj \<Rightarrow> string \<Rightarrow> jsval \<Rightarrow> jsobj" where
  "set_prop obj k v = (if k = ''__proto__'' then obj else obj(k \<mapsto> v))"

text \<open>
  The inner loop of a data row,
  \<^verbatim>\<open>for (let i = 0; i < currentFields.length && i < values.length; i++)
    record[currentFields[i]] = values[i] || '';\<close>
  walks both lists in step and stops at the end of the shorter one.
\<close>

fun build_record :: "jsobj \<Rightarrow> string list \<Rightarrow> string list \<Rightarrow> jsobj" where
  "build_record record (f # fs) (v # vs) =
     build_record (set_prop record f (js_or (JStr v) (JStr []))) fs vs"
| "build_record record fs vs = record"

text \<open>
  The state of the loop over the lines: the table map \<open>data\<close>, the current table
  (\<open>None\<close> for \<open>null\<close>) and the current field list. A table named \<open>__proto__\<close>
  lives in the prototype slot of \<open>data\<close>, which the same name reads back; the map holds
  it like every other table.
\<close>

record parse_state =
  data :: "string \<Rightarrow> jsobj list option"
  currentTable :: "string option"
  currentFields :: "string list"

text \<open>
  One iteration of the loop. \<open>data[currentTable].push(record)\<close> raises a
  \<open>TypeError\<close> when \<open>data[currentTable]\<close> is undefined.
\<close>

definition process_line :: "parse_state \<Rightarrow> string \<Rightarrow> js_error + parse_state" where
  "process_line st line =
     (if startsWith line (''%T'' @ [tab]) then
        Inr (st\<lparr>data := (data st)(substring line 3 \<mapsto> []),
                currentTable := Some (substring line 3),
                currentFields := []\<rparr>)
      else if startsWith line (''%F'' @ [tab]) then
        Inr (st\<lparr>currentFields := split_str (substring line 3) tab\<rparr>)
      else if startsWith line (''%R'' @ [tab]) then
        (case currentTable st of
           None \<Rightarrow> Inr st
         | Some table \<Rightarrow>
             if table \<noteq> [] \<and> 0 < length (currentFields st) then
               (case data st table of
                  None \<Rightarrow> Inl TypeError
                | Some rows \<Rightarrow>
                    Inr (st\<lparr>data := (data st)(table \<mapsto> rows @
                      [build_record Map.empty (currentFields st)
                         (split_str (substring line 3) tab)])\<rparr>))
             else Inr st)
      else Inr st)"

fun process_lines :: "parse_state \<Rightarrow> string list \<Rightarrow> js_error + parse_state" where
  "process_lines st [] = Inr st"
| "process_lines st (line # lines) =
     (case process_line st line of
        Inl e \<Rightarrow> Inl e
      | Inr st' \<Rightarrow> process_lines st' lines)"

definition content_lines :: "string \<Rightarrow> string list" where
  "content_lines content = filter (\<lambda>line. line \<noteq> []) (map trim (split_str content newline))"

definition parseContent :: "string \<Rightarrow> js_error + (string \<Rightarrow> jsobj list option)" where
  "parseContent content =
     (case process_lines \<lparr>data = Map.empty, currentTable = None, currentFields = []\<rparr>
             (content_lines content) of
        Inl e \<Rightarrow> Inl e
      | Inr st \<Rightarrow> Inr (data st))"

section \<open>Schema-typed conversion\<close>

text \<open>
  A table schema maps a field name to the \<open>type\<close> string of its entry. A field whose
  name the schema does not hold keeps its value; so does a field whose name is an inherited
  property of the schema object, whose \<open>type\<close> is undefined and falls to the default
  branch.
\<close>

type_synonym table_schema = "string \<Rightarrow> string option"

definition convertTypes :: "js_runtime \<Rightarrow> jsobj \<Rightarrow> table_schema option \<Rightarrow> jsobj" where
  "convertTypes rt record tableSchema =
     (case tableSchema of
        None \<Rightarrow> record
      | Some schema \<Rightarrow>
          (\<lambda>field.
             case record field of
               None \<Rightarrow> None
             | Some v \<Rightarrow>
                 (case schema field of
                    None \<Rightarrow> Some v
                  | Some ty \<Rightarrow>
                      if ty = ''number'' then Some (JNum (convertToNumber rt v))
                      else if ty = ''date'' then Some (convertToDate rt v)
                      else if ty = ''boolean'' then
                        Some (JBool (v = JStr ''Y'' \<or> v = JStr ''true'' \<or> v = JStr ''1''))
                      else Some v)))"

definition SCHEMAS_PROJECT :: table_schema where
  "SCHEMAS_PROJECT = map_of
     [(''proj_id'', ''string''), (''proj_short_name'', ''string''), (''proj_name'', ''string''),
      (''proj_mgr'', ''string''), (''status_code'', ''string'')]"

definition SCHEMAS_TASK :: table_schema where
  "SCHEMAS_TASK = map_of
     [(''task_id'', ''string''), (''proj_id'', ''string''), (''wbs_id'', ''string''),
      (''task_code'', ''string''), (''task_name'', ''string''), (''status_code'', ''string''),
      (''phys_complete_pct'', ''number''), (''target_drtn_hr_cnt'', ''number''),
      (''total_float_hr_cnt'', ''number''), (''driving_path_flag'', ''string''),
      (''act_start_date'', ''date''), (''act_end_date'', ''date''),
      (''early_start_date'', ''date''), (''early_end_date'', ''date''),
      (''late_start_date'', ''date''), (''late_end_date'', ''date'')]"

definition SCHEMAS_PROJWBS :: table_schema where
  "SCHEMAS_PROJWBS = map_of
     [(''wbs_id'', ''string''), (''proj_id'', ''string''), (''obs_id'', ''string''),
      (''seq_num'', ''number''), (''est_wt'', ''number''), (''proj_node_flag'', ''string''),
      (''sum_data_flag'', ''string''), (''status_code'', ''string''), (''wbs_name'', ''string''),
      (''wbs_short_name'', ''string''), (''parent_wbs_id'', ''string'')]"

definition SCHEMAS_RSRC :: table_schema where
  "SCHEMAS_RSRC = map_of
     [(''rsrc_id'', ''string''), (''rsrc_name'', ''string''), (''rsrc_type'', ''string'')]"

definition SCHEMAS_TASKPRED :: table_schema where
  "SCHEMAS_TASKPRED = map_of
     [(''task_pred_id'', ''string''), (''task_id'', ''string''), (''pred_task_id'', ''string''),
      (''pred_type'', ''string''), (''lag_hr_cnt'', ''number'')]"

definition SCHEMAS_TASKRSRC :: table_schema where
  "SCHEMAS_TASKRSRC = map_of
     [(''taskrsrc_id'', ''string''), (''task_id'', ''string''), (''rsrc_id'', ''string''),
      (''proj_id'', ''string''), (''target_qty'', ''number''), (''target_cost'', ''number''),
      (''act_reg_qty'', ''number''), (''act_ot_qty'', ''number''), (''act_reg_cost'', ''number''),
      (''act_ot_cost'', ''number''), (''remain_qty'', ''number''), (''remain_cost'', ''number'')]"

section \<open>The reader and its queries\<close>

record reader =
  projects :: "jsobj list"
  activities :: "jsobj list"
  wbs :: "jsobj list"
  resources :: "jsobj list"
  relationships :: "jsobj list"
  activityResources :: "jsobj list"

definition new_Reader :: reader where
  "new_Reader = \<lparr>projects = [], activities = [], wbs = [], resources = [],
     relationships = [], activityResources = []\<rparr>"

text \<open>A table missing from the raw data leaves its collection as it was.\<close>

definition build_collection ::
  "js_runtime \<Rightarrow> jsobj list option \<Rightarrow> table_schema \<Rightarrow> jsobj list \<Rightarrow> jsobj list" where
  "build_collection rt rows schema old =
     (case rows of
        None \<Rightarrow> old
      | Some rs \<Rightarrow> map (\<lambda>record. convertTypes rt record (Some schema)) rs)"

definition buildCollections ::
  "js_runtime \<Rightarrow> (string \<Rightarrow> jsobj list option) \<Rightarrow> reader \<Rightarrow> reader" where
  "buildCollections rt rawData rd =
     \<lparr>projects = build_collection rt (rawData ''PROJECT'') SCHEMAS_PROJECT (projects rd),
      activities = build_collection rt (rawData ''TASK'') SCHEMAS_TASK (activities rd),
      wbs = build_collection rt (rawData ''PROJWBS'') SCHEMAS_PROJWBS (wbs rd),
      resources = build_collection rt (rawData ''RSRC'') SCHEMAS_RSRC (resources rd),
      relationships = build_collection rt (rawData ''TASKPRED'') SCHEMAS_TASKPRED (relationships rd),
      activityResources =
        build_collection rt (rawData ''TASKRSRC'') SCHEMAS_TASKRSRC (activityResources rd)\<rparr>"

definition Reader_parseContent :: "js_runtime \<Rightarrow> reader \<Rightarrow> string \<Rightarrow> js_error + reader" where
  "Reader_parseContent rt rd content =
     (case parseContent content of
        Inl e \<Rightarrow> Inl e
      | Inr rawData \<Rightarrow> Inr (buildCollections rt rawData rd))"


definition getActivitiesByProject :: "reader \<Rightarrow> jsval \<Rightarrow> jsobj list" where
  "getActivitiesByProject rd projectId =
     filter (\<lambda>activity. strict_eq (prop_of activity ''proj_id'') projectId) (activities rd)"

definition getCriticalActivities :: "js_runtime \<Rightarrow> reader \<Rightarrow> jsobj list" where
  "getCriticalActivities rt rd =
     filter (\<lambda>activity.
        convertToNumber rt (prop_of activity ''total_float_hr_cnt'') = 0 \<or>
        strict_eq (prop_of activity ''driving_path_flag'') (JStr ''Y''))
      (activities rd)"

definition getResourceAssignmentsByResource :: "reader \<Rightarrow> jsval \<Rightarrow> jsobj list" where
  "getResourceAssignmentsByResource rd resourceId =
     filter (\<lambda>ar. strict_eq (prop_of ar ''rsrc_id'') resourceId) (activityResources rd)"

section \<open>Resource curve\<close>

text \<open>
  An entry of \<open>activityData\<close>. \<open>startDate\<close> and \<open>endDate\<close> are the time values of
  \<open>new Date(startDate)\<close> and \<open>new Date(endDate)\<close>, \<open>None\<close> for an invalid date.
\<close>

record activity_datum =
  activityId :: jsval
  activityName :: jsval
  taskCode :: jsval
  startDate :: "int option"
  endDate :: "int option"
  targetQty :: real
  actualQty :: real
  targetCost :: real
  actualCost :: real
  remainingQty :: real
  remainingCost :: real
  activityStatus :: jsval
  activityCompletion :: real
  duration :: real

text \<open>
  An entry of a week's \<open>activeActivities\<close>: the activity with its shares of the week.
  The four shares are the source's properties \<open>weeklyTargetQty\<close>, \<open>weeklyActualQty\<close>,
  \<open>weeklyTargetCost\<close> and \<open>weeklyActualCost\<close> of the entry, named here after the
  local variables that hold them.
\<close>

record active_activity =
  activity :: activity_datum
  weeklyActivityTargetQty :: real
  weeklyActivityActualQty :: real
  weeklyActivityTargetCost :: real
  weeklyActivityActualCost :: real
  overlapRatio :: real

record time_point =
  date :: int
  weekEnd :: "int option"
  weeklyTargetQty :: real
  weeklyActualQty :: real
  weeklyTargetCost :: real
  weeklyActualCost :: real
  activeActivities :: "active_activity list"

text \<open>
  The curve: the model keeps \<open>resourceId\<close> and \<open>timeBasedData\<close>; the \<open>resource\<close>
  object and the per-assignment \<open>dataPoints\<close> are not modelled.
\<close>

record curve =
  resourceId :: jsval
  timeBasedData :: "time_point list"

text \<open>The first loop over the assignments: one entry for each assignment whose activity
  is found and has a truthy start and end.\<close>

definition activity_entry :: "js_runtime \<Rightarrow> reader \<Rightarrow> jsobj \<Rightarrow> activity_datum list" where
  "activity_entry rt rd assignment =
     (case find (\<lambda>a. strict_eq (prop_of a ''task_id'') (prop_of assignment ''task_id''))
             (activities rd) of
        None \<Rightarrow> []
      | Some act \<Rightarrow>
          (let startDate = js_or (prop_of act ''act_start_date'') (prop_of act ''early_start_date'');
               endDate = js_or (prop_of act ''act_end_date'') (prop_of act ''early_end_date'')
           in if truthy startDate \<and> truthy endDate then
                [\<lparr>activityId = prop_of act ''task_id'',
                  activityName = prop_of act ''task_name'',
                  taskCode = prop_of act ''task_code'',
                  startDate = new_Date rt startDate,
                  endDate = new_Date rt endDate,
                  targetQty = convertToNumber rt (prop_of assignment ''target_qty''),
                  actualQty = convertToNumber rt (prop_of assignment ''act_reg_qty'') +
                              convertToNumber rt (prop_of assignment ''act_ot_qty''),
                  targetCost = convertToNumber rt (prop_of assignment ''target_cost''),
                  actualCost = convertToNumber rt (prop_of assignment ''act_reg_cost'') +
                               convertToNumber rt (prop_of assignment ''act_ot_cost''),
                  remainingQty = convertToNumber rt (prop_of assignment ''remain_qty''),
                  remainingCost = convertToNumber rt (prop_of assignment ''remain_cost''),
                  activityStatus = prop_of act ''status_code'',
                  activityCompletion = convertToNumber rt (prop_of act ''phys_complete_pct''),
                  duration = convertToNumber rt (prop_of act ''target_drtn_hr_cnt'')\<rparr>]
              else []))"

definition collect_activityData :: "js_runtime \<Rightarrow> reader \<Rightarrow> jsobj list \<Rightarrow> activity_datum list" where
  "collect_activityData rt rd assignments = concat (map (activity_entry rt rd) assignments)"

text \<open>
  \<open>activityData.sort((a, b) => a.startDate - b.startDate)\<close>: a stable sort by start
  time. When a start date is invalid the comparator yields not-a-number and the order is
  left to the host; the model then sorts that entry as time 0, and \<open>timeBasedData\<close>
  is empty whatever the order.
\<close>

definition sort_time :: "int option \<Rightarrow> int" where
  "sort_time d = (case d of None \<Rightarrow> 0 | Some t \<Rightarrow> t)"

definition sort_activityData :: "activity_datum list \<Rightarrow> activity_datum list" where
  "sort_activityData activityData = sort_key (\<lambda>a. sort_time (startDate a)) activityData"

text \<open>
  \<open>Math.min(...ds)\<close> and \<open>Math.max(...ds)\<close> over dates: not-a-number as soon as
  one date is invalid; for no dates at all the result is infinite and \<open>None\<close> stands
  for it, its date being invalid too.
\<close>

fun nan_min :: "int option \<Rightarrow> int option \<Rightarrow> int option" where
  "nan_min (Some a) (Some b) = Some (min a b)"
| "nan_min a b = None"

fun nan_max :: "int option \<Rightarrow> int option \<Rightarrow> int option" where
  "nan_max (Some a) (Some b) = Some (max a b)"
| "nan_max a b = None"

definition Math_min :: "int option list \<Rightarrow> int option" where
  "Math_min ds = (case ds of [] \<Rightarrow> None | d # rest \<Rightarrow> fold nan_min rest d)"

definition Math_max :: "int option list \<Rightarrow> int option" where
  "Math_max ds = (case ds of [] \<Rightarrow> None | d # rest \<Rightarrow> fold nan_max rest d)"

definition weekInMs :: int where
  "weekInMs = 7 * 24 * 60 * 60 * 1000"

text \<open>
  The body of \<open>activityData.forEach\<close> inside a week that starts at \<open>weekStart\<close> and
  whose end has the time value \<open>wEnd\<close>. A comparison with an invalid date is false, so
  an activity with an invalid date adds nothing, and no activity adds to a week whose end
  is invalid. The dates of an entry and the week start are valid here, so are their
  maximum and minimum, whose copies \<open>overlapStart\<close> and \<open>overlapEnd\<close> are not
  clipped again.
\<close>

definition add_activity :: "int \<Rightarrow> int option \<Rightarrow> activity_datum \<Rightarrow> time_point \<Rightarrow> time_point" where
  "add_activity weekStart wEnd a tp =
     (case (startDate a, endDate a, wEnd) of
        (Some s, Some e, Some we) \<Rightarrow>
          if s \<le> we \<and> e \<ge> weekStart then
            (let overlapStart = max s weekStart;
                 overlapEnd = min e we;
                 overlapDuration = max 0 (overlapEnd - overlapStart);
                 activityDuration = e - s;
                 ratio = (if activityDuration > 0
                          then real_of_int overlapDuration / real_of_int activityDuration
                          else 0)
             in tp\<lparr>weeklyTargetQty := weeklyTargetQty tp + targetQty a * ratio,
                   weeklyActualQty := weeklyActualQty tp + actualQty a * ratio,
                   weeklyTargetCost := weeklyTargetCost tp + targetCost a * ratio,
                   weeklyActualCost := weeklyActualCost tp + actualCost a * ratio,
                   activeActivities := activeActivities tp @
                     [\<lparr>activity = a,
                       weeklyActivityTargetQty = targetQty a * ratio,
                       weeklyActivityActualQty = actualQty a * ratio,
                       weeklyActivityTargetCost = targetCost a * ratio,
                       weeklyActivityActualCost = actualCost a * ratio,
                       overlapRatio = ratio\<rparr>]\<rparr>)
          else tp
      | _ \<Rightarrow> tp)"

text \<open>
  One pass of the loop body at a valid \<open>currentDate\<close>: \<open>weekEnd\<close> is
  \<open>new Date(currentDate.getTime() + weekInMs)\<close>, invalid when the sum leaves the range.
\<close>

definition week_point :: "activity_datum list \<Rightarrow> int \<Rightarrow> time_point" where
  "week_point activityData currentDate =
     fold (add_activity currentDate (TimeClip (currentDate + weekInMs))) activityData
       \<lparr>date = currentDate, weekEnd = TimeClip (currentDate + weekInMs),
        weeklyTargetQty = 0, weeklyActualQty = 0, weeklyTargetCost = 0, weeklyActualCost = 0,
        activeActivities = []\<rparr>"

text \<open>
  The loop \<open>while (currentDate <= projectEndDate)\<close>, one week a step. \<open>currentDate\<close>
  is \<open>None\<close> once \<open>setTime\<close> has made it invalid; the test is then false and the loop
  ends.
\<close>

function week_loop :: "activity_datum list \<Rightarrow> int option \<Rightarrow> int \<Rightarrow> time_point list" where
  "week_loop activityData currentDate projectEndDate =
     (case currentDate of
        None \<Rightarrow> []
      | Some c \<Rightarrow>
          if c \<le> projectEndDate
          then week_point activityData c #
               week_loop activityData (TimeClip (c + weekInMs)) projectEndDate
          else [])"
  by pat_completeness auto
termination
  by (relation "measure (\<lambda>(activityData, currentDate, projectEndDate).
        case currentDate of None \<Rightarrow> 0 | Some c \<Rightarrow> nat (projectEndDate - c + 1) + 1)")
     (auto simp: weekInMs_def TimeClip_def)

declare week_loop.simps [simp del]

definition getResourceCurve :: "js_runtime \<Rightarrow> reader \<Rightarrow> jsval \<Rightarrow> curve" where
  "getResourceCurve rt rd rid =
     (let assignments = getResourceAssignmentsByResource rd rid;
          activityData = sort_activityData (collect_activityData rt rd assignments)
      in if length activityData = 0 then \<lparr>resourceId = rid, timeBasedData = []\<rparr>
         else
           (case (Date_of_time (Math_min (map startDate activityData)),
                  Date_of_time (Math_max (map endDate activityData))) of
              (Some projectStartDate, Some projectEndDate) \<Rightarrow>
                \<lparr>resourceId = rid,
                 timeBasedData = week_loop activityData (Some projectStartDate) projectEndDate\<rparr>
            | _ \<Rightarrow> \<lparr>resourceId = rid, timeBasedData = []\<rparr>))"

section \<open>Summary statistics\<close>

record duration_stats =
  total :: real
  average :: real
  minimum :: real
  maximum :: real

text \<open>
  The result of \<open>getSummaryStats\<close>. \<open>durationStats\<close> is \<open>None\<close> when the property
  is absent from the result. The two histograms \<open>statusBreakdown\<close> and
  \<open>resourceBreakdown\<close> are not modelled.
\<close>

record summary_stats =
  totalProjects :: nat
  totalActivities :: nat
  totalResources :: nat
  totalRelationships :: nat
  totalResourceAssignments :: nat
  durationStats :: "duration_stats option"

text \<open>\<open>Math.min(...ds)\<close> and \<open>Math.max(...ds)\<close> on a list of numbers that is not empty.\<close>

definition list_min :: "real list \<Rightarrow> real" where
  "list_min ds = fold min (tl ds) (hd ds)"

definition list_max :: "real list \<Rightarrow> real" where
  "list_max ds = fold max (tl ds) (hd ds)"

definition getSummaryStats :: "js_runtime \<Rightarrow> reader \<Rightarrow> summary_stats" where
  "getSummaryStats rt rd =
     (let durations = filter (\<lambda>d. d > 0)
            (map (\<lambda>a. convertToNumber rt (prop_of a ''target_drtn_hr_cnt'')) (activities rd))
      in \<lparr>totalProjects = length (projects rd),
          totalActivities = length (activities rd),
          totalResources = length (resources rd),
          totalRelationships = length (relationships rd),
          totalResourceAssignments = length (activityResources rd),
          durationStats =
            (if length durations > 0 then
               Some \<lparr>total = fold (\<lambda>d sum. sum + d) durations 0,
                     average = fold (\<lambda>d sum. sum + d) durations 0 / real (length durations),
                     minimum = list_min durations,
                     maximum = list_max durations\<rparr>
             else None)\<rparr>)"

section \<open>Schedule integrity assessment\<close>

text \<open>
  The application state the checker reads: the activities of the current project (the
  application fills them with \<open>getActivitiesByProject\<close>) and the reader. Of a check's
  result the model keeps the number, the title and the status; the
  details, the lists of failed items and the message take no part in the summary.
\<close>

record app_state =
  allActivities :: "jsobj list"
  currentReader :: reader

record check_point =
  number :: nat
  title :: string
  status :: string

record summary =
  totalPoints :: nat
  passedPoints :: nat
  failedPoints :: nat
  warningPoints :: nat
  score :: int
  grade :: string

record assessment =
  points :: "check_point list"
  summary :: summary

text \<open>Membership in a \<open>Set\<close> filled with one property of every object of a list.\<close>

definition set_has :: "jsobj list \<Rightarrow> string \<Rightarrow> jsval \<Rightarrow> bool" where
  "set_has objs k v = list_ex (\<lambda>obj. strict_eq (prop_of obj k) v) objs"

text \<open>A comparison of \<open>parseFloat(v || 0)\<close> with a bound; not-a-number compares false.\<close>

definition float_or_0 :: "js_runtime \<Rightarrow> jsval \<Rightarrow> real option" where
  "float_or_0 rt v = parseFloat rt (js_or v (JNum 0))"

definition nan_test :: "real option \<Rightarrow> (real \<Rightarrow> bool) \<Rightarrow> bool" where
  "nan_test x P = (case x of None \<Rightarrow> False | Some r \<Rightarrow> P r)"

definition checkLogic :: "js_runtime \<Rightarrow> jsobj list \<Rightarrow> jsobj list \<Rightarrow> check_point" where
  "checkLogic rt acts rels =
     (let withPred = (\<lambda>a. set_has rels ''task_id'' (prop_of a ''task_id''));
          withSucc = (\<lambda>a. set_has rels ''pred_task_id'' (prop_of a ''task_id''));
          startMilestones = filter (\<lambda>a. \<not> withPred a \<and>
             (strict_eq (prop_of a ''target_drtn_hr_cnt'') (JNum 0) \<or>
              \<not> truthy (prop_of a ''target_drtn_hr_cnt''))) acts;
          finishMilestones = filter (\<lambda>a. \<not> withSucc a \<and>
             (strict_eq (prop_of a ''target_drtn_hr_cnt'') (JNum 0) \<or>
              \<not> truthy (prop_of a ''target_drtn_hr_cnt''))) acts;
          danglingActivities = filter (\<lambda>a. \<not> withPred a \<and> \<not> withSucc a) acts
      in \<lparr>number = 1, title = ''Logic'',
          status = (if length danglingActivities = 0 \<and> length startMilestones \<ge> 1 \<and>
                       length finishMilestones \<ge> 1 then ''pass'' else ''fail'')\<rparr>)"

definition checkLeads :: "js_runtime \<Rightarrow> jsobj list \<Rightarrow> check_point" where
  "checkLeads rt rels =
     (let leadRelationships = filter (\<lambda>rel. truthy (prop_of rel ''lag_hr_cnt'') \<and>
             nan_test (parseFloat rt (prop_of rel ''lag_hr_cnt'')) (\<lambda>x. x < 0)) rels
      in \<lparr>number = 2, title = ''Leads'',
          status = (if length leadRelationships = 0 then ''pass''
                    else if real (length leadRelationships) \<le> real (length rels) * (5 / 100)
                    then ''warning'' else ''fail'')\<rparr>)"

definition checkLags :: "js_runtime \<Rightarrow> jsobj list \<Rightarrow> check_point" where
  "checkLags rt rels =
     (let lagRelationships = filter (\<lambda>rel. truthy (prop_of rel ''lag_hr_cnt'') \<and>
             nan_test (parseFloat rt (prop_of rel ''lag_hr_cnt'')) (\<lambda>x. x > 0)) rels
      in \<lparr>number = 3, title = ''Lags'',
          status = (if real (length lagRelationships) \<le> real (length rels) * (1 / 10)
                    then ''pass'' else ''warning'')\<rparr>)"

definition checkRelationshipTypes :: "js_runtime \<Rightarrow> jsobj list \<Rightarrow> check_point" where
  "checkRelationshipTypes rt rels =
     (let fsRelationships = filter (\<lambda>rel. \<not> truthy (prop_of rel ''pred_type'') \<or>
             strict_eq (prop_of rel ''pred_type'') (JStr ''PR_FS'')) rels;
          percentage = (if length rels > 0
                        then real (length fsRelationships) / real (length rels) * 100
                        else 100)
      in \<lparr>number = 4, title = ''Relationship Types'',
          status = (if percentage \<ge> 90 then ''pass''
                    else if percentage \<ge> 80 then ''warning'' else ''fail'')\<rparr>)"

definition checkHardConstraints :: "js_runtime \<Rightarrow> jsobj list \<Rightarrow> check_point" where
  "checkHardConstraints rt acts =
     (let constrainedActivities = filter (\<lambda>a. truthy (prop_of a ''cstr_type'') \<and>
             \<not> strict_eq (prop_of a ''cstr_type'') (JStr ''CS_ALAP'') \<and>
             \<not> strict_eq (prop_of a ''cstr_type'') (JStr ''CS_ASAP'')) acts
      in \<lparr>number = 5, title = ''Hard Constraints'',
          status = (if length constrainedActivities = 0 then ''pass''
                    else if real (length constrainedActivities) \<le> real (length acts) * (5 / 100)
                    then ''warning'' else ''fail'')\<rparr>)"

definition checkHighFloat :: "js_runtime \<Rightarrow> jsobj list \<Rightarrow> check_point" where
  "checkHighFloat rt acts =
     (let highFloatActivities = filter (\<lambda>a.
             nan_test (float_or_0 rt (prop_of a ''total_float_hr_cnt'')) (\<lambda>x. x > 168)) acts;
          percentage = (if length acts > 0
                        then real (length highFloatActivities) / real (length acts) * 100
                        else 0)
      in \<lparr>number = 6, title = ''High Float'',
          status = (if percentage \<le> 5 then ''pass''
                    else if percentage \<le> 10 then ''warning'' else ''fail'')\<rparr>)"

definition checkNegativeFloat :: "js_runtime \<Rightarrow> jsobj list \<Rightarrow> check_point" where
  "checkNegativeFloat rt acts =
     (let negativeFloatActivities = filter (\<lambda>a.
             nan_test (float_or_0 rt (prop_of a ''total_float_hr_cnt'')) (\<lambda>x. x < 0)) acts
      in \<lparr>number = 7, title = ''Negative Float'',
          status = (if length negativeFloatActivities = 0 then ''pass'' else ''fail'')\<rparr>)"

definition checkHighDuration :: "js_runtime \<Rightarrow> jsobj list \<Rightarrow> check_point" where
  "checkHighDuration rt acts =
     (let highDurationActivities = filter (\<lambda>a.
             nan_test (float_or_0 rt (prop_of a ''target_drtn_hr_cnt'')) (\<lambda>x. x > 960)) acts;
          percentage = (if length acts > 0
                        then real (length highDurationActivities) / real (length acts) * 100
                        else 0)
      in \<lparr>number = 8, title = ''High Duration'',
          status = (if percentage \<le> 5 then ''pass''
                    else if percentage \<le> 10 then ''warning'' else ''fail'')\<rparr>)"

text \<open>\<open>new Date(startDate) > new Date(endDate)\<close>: false when either date is invalid.\<close>

definition date_gt :: "int option \<Rightarrow> int option \<Rightarrow> bool" where
  "date_gt d1 d2 = (case (d1, d2) of (Some t1, Some t2) \<Rightarrow> t1 > t2 | _ \<Rightarrow> False)"

definition checkInvalidDates :: "js_runtime \<Rightarrow> jsobj list \<Rightarrow> check_point" where
  "checkInvalidDates rt acts =
     (let invalidDateActivities = filter (\<lambda>a.
             (let startDate = js_or (prop_of a ''act_start_date'') (prop_of a ''early_start_date'');
                  endDate = js_or (prop_of a ''act_end_date'') (prop_of a ''early_end_date'')
              in \<not> truthy startDate \<or> \<not> truthy endDate \<or>
                 date_gt (new_Date rt startDate) (new_Date rt endDate))) acts
      in \<lparr>number = 9, title = ''Invalid Dates'',
          status = (if length invalidDateActivities = 0 then ''pass'' else ''fail'')\<rparr>)"

definition checkResources :: "js_runtime \<Rightarrow> jsobj list \<Rightarrow> jsobj list \<Rightarrow> check_point" where
  "checkResources rt acts assignments =
     (let workActivities = filter (\<lambda>a.
             nan_test (float_or_0 rt (prop_of a ''target_drtn_hr_cnt'')) (\<lambda>x. x > 0)) acts;
          resourcedActivities = filter (\<lambda>a.
             set_has assignments ''task_id'' (prop_of a ''task_id'')) workActivities;
          percentage = (if length workActivities > 0
                        then real (length resourcedActivities) / real (length workActivities) * 100
                        else 100)
      in \<lparr>number = 10, title = ''Resources'',
          status = (if percentage \<ge> 95 then ''pass''
                    else if percentage \<ge> 80 then ''warning'' else ''fail'')\<rparr>)"

definition checkIncompleteActivities :: "js_runtime \<Rightarrow> jsobj list \<Rightarrow> check_point" where
  "checkIncompleteActivities rt acts =
     (let incompleteActivities = filter (\<lambda>a.
             strict_eq (prop_of a ''status_code'') (JStr ''TK_Active'') \<and>
             nan_test (float_or_0 rt (prop_of a ''phys_complete_pct'')) (\<lambda>x. x = 0)) acts;
          activeActs = filter (\<lambda>a.
             strict_eq (prop_of a ''status_code'') (JStr ''TK_Active'')) acts;
          percentage = (if length activeActs > 0
                        then real (length incompleteActivities) / real (length activeActs) * 100
                        else 0)
      in \<lparr>number = 11, title = ''Incomplete Activities'',
          status = (if percentage \<le> 5 then ''pass''
                    else if percentage \<le> 10 then ''warning'' else ''fail'')\<rparr>)"

definition checkCriticalPath :: "js_runtime \<Rightarrow> jsobj list \<Rightarrow> check_point" where
  "checkCriticalPath rt acts =
     (let criticalActivities = filter (\<lambda>a.
             nan_test (float_or_0 rt (prop_of a ''total_float_hr_cnt'')) (\<lambda>x. x = 0) \<or>
             strict_eq (prop_of a ''driving_path_flag'') (JStr ''Y'')) acts;
          percentage = (if length acts > 0
                        then real (length criticalActivities) / real (length acts) * 100
                        else 0)
      in \<lparr>number = 12, title = ''Critical Path Test'',
          status = (if percentage \<ge> 5 \<and> percentage \<le> 15 then ''pass'' else ''warning'')\<rparr>)"

definition checkCD1 :: check_point where
  "checkCD1 = \<lparr>number = 13, title = ''CD-1 Baseline'', status = ''pass''\<rparr>"

definition checkCD234 :: check_point where
  "checkCD234 = \<lparr>number = 14, title = ''CD-2/3/4 Requirements'', status = ''pass''\<rparr>"

text \<open>The body of \<open>results.points.forEach\<close> that counts the statuses.\<close>

definition count_point :: "check_point \<Rightarrow> summary \<Rightarrow> summary" where
  "count_point point sm =
     (if status point = ''pass'' then sm\<lparr>passedPoints := passedPoints sm + 1\<rparr>
      else if status point = ''fail'' then sm\<lparr>failedPoints := failedPoints sm + 1\<rparr>
      else if status point = ''warning'' then sm\<lparr>warningPoints := warningPoints sm + 1\<rparr>
      else sm)"

text \<open>\<open>Math.round\<close>: the nearest integer, a half rounding up.\<close>

definition Math_round :: "real \<Rightarrow> int" where
  "Math_round x = \<lfloor>x + 1 / 2\<rfloor>"

definition set_score :: "summary \<Rightarrow> summary" where
  "set_score sm =
     sm\<lparr>score := Math_round (real (passedPoints sm) / real (totalPoints sm) * 100)\<rparr>"

definition set_grade :: "summary \<Rightarrow> summary" where
  "set_grade sm =
     (if score sm \<ge> 90 then sm\<lparr>grade := ''A''\<rparr>
      else if score sm \<ge> 80 then sm\<lparr>grade := ''B''\<rparr>
      else if score sm \<ge> 70 then sm\<lparr>grade := ''C''\<rparr>
      else if score sm \<ge> 60 then sm\<lparr>grade := ''D''\<rparr>
      else sm\<lparr>grade := ''F''\<rparr>)"

definition run_checks :: "js_runtime \<Rightarrow> app_state \<Rightarrow> check_point list" where
  "run_checks rt app =
     (let acts = allActivities app;
          rels = relationships (currentReader app);
          assignments = activityResources (currentReader app)
      in [checkLogic rt acts rels,
          checkLeads rt rels,
          checkLags rt rels,
          checkRelationshipTypes rt rels,
          checkHardConstraints rt acts,
          checkHighFloat rt acts,
          checkNegativeFloat rt acts,
          checkHighDuration rt acts,
          checkInvalidDates rt acts,
          checkResources rt acts assignments,
          checkIncompleteActivities rt acts,
          checkCriticalPath rt acts,
          checkCD1,
          checkCD234])"

definition runDCMA14Assessment :: "js_runtime \<Rightarrow> app_state \<Rightarrow> assessment" where
  "runDCMA14Assessment rt app =
     (let pts = run_checks rt app;
          counted = fold count_point pts
            \<lparr>totalPoints = 14, passedPoints = 0, failedPoints = 0, warningPoints = 0,
             score = 0, grade = ''F''\<rparr>
      in \<lparr>points = pts, summary = set_grade (set_score counted)\<rparr>)"

section \<open>Example data and notions for the statements\<close>

text \<open>
  A host for the examples. Of the numbers it reads the strings of decimal digits. Of the
  dates it reads four strings, midnights in universal time: \<open>1970-01-01\<close> and
  \<open>1970-01-15\<close>, the start of the epoch and of its fifteenth day, and the last instant
  of the range of time values with the instant three days before it. It accepts no other
  string.
\<close>

definition digit_of :: "char \<Rightarrow> nat option" where
  "digit_of c = map_of (zip ''0123456789'' [0, 1, 2, 3, 4, 5, 6, 7, 8, 9]) c"

fun digits_value :: "nat \<Rightarrow> string \<Rightarrow> nat option" where
  "digits_value acc [] = Some acc"
| "digits_value acc (c # cs) =
     (case digit_of c of None \<Rightarrow> None | Some d \<Rightarrow> digits_value (10 * acc + d) cs)"

definition digits_number :: "string \<Rightarrow> real option" where
  "digits_number s = (if s = [] then None else map_option real (digits_value 0 s))"

definition example_dates :: "string \<Rightarrow> int option" where
  "example_dates = map_of
     [(''1970-01-01'', 0), (''1970-01-15'', 1209600000),
      (''+275760-09-10T00:00:00.000Z'', 8639999740800000),
      (''+275760-09-13T00:00:00.000Z'', 8640000000000000)]"

definition example_runtime :: js_runtime where
  "example_runtime =
     \<lparr>StringToNumber = digits_number, DateParse = example_dates, StringToFloat = digits_number\<rparr>"

definition example_activity :: "string \<Rightarrow> real \<Rightarrow> real \<Rightarrow> int \<Rightarrow> int \<Rightarrow> jsobj" where
  "example_activity tid dur flt s e = map_of
     [(''task_id'', JStr tid), (''status_code'', JStr ''TK_NotStart''),
      (''target_drtn_hr_cnt'', JNum dur), (''total_float_hr_cnt'', JNum flt),
      (''driving_path_flag'', JStr ''N''),
      (''early_start_date'', JDate s), (''early_end_date'', JDate e)]"

text \<open>An activity with a float of -5 hours, and one whose float field is missing.\<close>

definition example_late :: jsobj where
  "example_late = example_activity ''A1'' 40 (- 5) 0 86400000"

definition example_nofloat :: jsobj where
  "example_nofloat = map_of [(''task_id'', JStr ''A2''), (''driving_path_flag'', JStr ''N'')]"

text \<open>Activities whose float is null, and undefined.\<close>

definition example_nullfloat :: jsobj where
  "example_nullfloat = map_of
     [(''task_id'', JStr ''A5''), (''total_float_hr_cnt'', JNull),
      (''driving_path_flag'', JStr ''N'')]"

definition example_undefinedfloat :: jsobj where
  "example_undefinedfloat = map_of
     [(''task_id'', JStr ''A6''), (''total_float_hr_cnt'', JUndefined),
      (''driving_path_flag'', JStr ''N'')]"

text \<open>A raw TASK record whose float value is the empty string.\<close>

definition example_rawtask :: jsobj where
  "example_rawtask = map_of
     [(''task_id'', JStr ''A3''), (''total_float_hr_cnt'', JStr []),
      (''driving_path_flag'', JStr ''N'')]"

text \<open>The durations over which \<open>getSummaryStats\<close> computes its statistics.\<close>

definition positive_durations :: "js_runtime \<Rightarrow> reader \<Rightarrow> real list" where
  "positive_durations rt rd = filter (\<lambda>d. d > 0)
     (map (\<lambda>a. convertToNumber rt (prop_of a ''target_drtn_hr_cnt'')) (activities rd))"

text \<open>Activities without and with a positive duration.\<close>

definition example_milestone :: jsobj where
  "example_milestone = example_activity ''M1'' 0 0 0 0"

definition example_long :: jsobj where
  "example_long = example_activity ''A4'' 80 16 0 864000000"

text \<open>A raw record and a schema with fields of every declared kind.\<close>

definition example_raw :: jsobj where
  "example_raw = map_of
     [(''qty'', JStr ''abc''), (''cost'', JStr []), (''hours'', JStr ''70''),
      (''start'', JStr []), (''finish'', JStr ''never''), (''begin'', JStr ''1970-01-15''),
      (''flag'', JStr ''Y''), (''done'', JStr ''yes''),
      (''name'', JStr ''Pour slab''), (''extra'', JStr ''raw'')]"

definition example_schema :: table_schema where
  "example_schema = map_of
     [(''qty'', ''number''), (''cost'', ''number''), (''hours'', ''number''),
      (''start'', ''date''), (''finish'', ''date''), (''begin'', ''date''),
      (''flag'', ''boolean''), (''done'', ''boolean''), (''name'', ''string'')]"

text \<open>The invariant of the tokenizer's loop: the current table has its row list.\<close>

definition table_ready :: "parse_state \<Rightarrow> bool" where
  "table_ready st = (case currentTable st of None \<Rightarrow> True | Some t \<Rightarrow> data st t \<noteq> None)"

text \<open>Reading the rows of a table, and one field of every row, out of a parse result.\<close>

definition rows_of :: "js_error + (string \<Rightarrow> jsobj list option) \<Rightarrow> string \<Rightarrow> jsobj list" where
  "rows_of res t = (case res of Inl e \<Rightarrow> [] | Inr d \<Rightarrow> (case d t of None \<Rightarrow> [] | Some rs \<Rightarrow> rs))"

definition column :: "string \<Rightarrow> jsobj list \<Rightarrow> jsval option list" where
  "column f rs = map (\<lambda>r. r f) rs"

text \<open>
  Input with no table line: text, a data row, an empty line, a field line and a line of
  an unknown kind. A loop state with no current table.
\<close>

definition example_garbage :: string where
  "example_garbage = ''junk'' @ [newline] @ ''%R'' @ [tab] @ ''1'' @ [tab] @ ''2'' @ [newline] @
     [newline] @ ''  %F'' @ [tab] @ ''a'' @ [newline] @ ''%X'' @ [tab] @ ''q''"

definition example_state :: parse_state where
  "example_state = \<lparr>data = Map.empty, currentTable = None, currentFields = [''a'']\<rparr>"

text \<open>
  A table whose only data row has two values for three fields, and the loop state that
  its first two lines leave.
\<close>

definition example_short_row :: string where
  "example_short_row = ''%T'' @ [tab] @ ''TASK'' @ [newline] @
     ''%F'' @ [tab] @ ''task_id'' @ [tab] @ ''task_name'' @ [tab] @ ''wbs_id'' @ [newline] @
     ''%R'' @ [tab] @ ''A1'' @ [tab] @ ''Dig''"

definition example_fields_state :: parse_state where
  "example_fields_state = \<lparr>data = [''TASK'' \<mapsto> []], currentTable = Some ''TASK'',
     currentFields = [''task_id'', ''task_name'', ''wbs_id'']\<rparr>"

text \<open>
  A schedule on which every check passes: a start milestone, five tasks in a chain, one of
  them critical, and a finish milestone; every link is finish-to-start without lag, and
  every task has an assignment.
\<close>

definition example_relationship :: "string \<Rightarrow> string \<Rightarrow> jsobj" where
  "example_relationship pred succ = map_of
     [(''task_id'', JStr succ), (''pred_task_id'', JStr pred),
      (''pred_type'', JStr ''PR_FS''), (''lag_hr_cnt'', JNum 0)]"

definition example_assignment :: "string \<Rightarrow> string \<Rightarrow> real \<Rightarrow> jsobj" where
  "example_assignment tid rid qty = map_of
     [(''task_id'', JStr tid), (''rsrc_id'', JStr rid), (''target_qty'', JNum qty)]"

definition example_schedule :: "jsobj list" where
  "example_schedule =
     [example_activity ''S'' 0 40 0 0,
      example_activity ''B1'' 40 0 0 432000000,
      example_activity ''B2'' 40 40 432000000 864000000,
      example_activity ''B3'' 40 40 864000000 1296000000,
      example_activity ''B4'' 40 40 1296000000 1728000000,
      example_activity ''B5'' 40 40 1728000000 2160000000,
      example_activity ''F'' 0 40 2160000000 2160000000]"

definition example_links :: "jsobj list" where
  "example_links =
     [example_relationship ''S'' ''B1'', example_relationship ''B1'' ''B2'',
      example_relationship ''B2'' ''B3'', example_relationship ''B3'' ''B4'',
      example_relationship ''B4'' ''B5'', example_relationship ''B5'' ''F'']"

definition example_assignments :: "jsobj list" where
  "example_assignments =
     [example_assignment ''B1'' ''R1'' 10, example_assignment ''B2'' ''R1'' 10,
      example_assignment ''B3'' ''R1'' 10, example_assignment ''B4'' ''R1'' 10,
      example_assignment ''B5'' ''R1'' 10]"

definition example_app :: app_state where
  "example_app = \<lparr>allActivities = example_schedule,
     currentReader = new_Reader\<lparr>activities := example_schedule, relationships := example_links,
       activityResources := example_assignments\<rparr>\<rparr>"

section \<open>Notions for the resource curve\<close>

text \<open>
  The part of an activity's target quantity that a week from \<open>weekStart\<close> to a
  valid end \<open>wEnd\<close> receives: the term that \<open>add_activity\<close> adds to
  \<open>weeklyTargetQty\<close> for such a week.
\<close>

definition target_share :: "int \<Rightarrow> int \<Rightarrow> activity_datum \<Rightarrow> real" where
  "target_share weekStart wEnd a =
     (case (startDate a, endDate a) of
        (Some s, Some e) \<Rightarrow>
          if s \<le> wEnd \<and> e \<ge> weekStart then
            targetQty a * (if e - s > 0
               then real_of_int (max 0 (min e wEnd - max s weekStart)) / real_of_int (e - s)
               else 0)
          else 0
      | _ \<Rightarrow> 0)"

text \<open>
  An assignment with a usable span: its activity is found, the start and the end are truthy
  and valid dates, and the start is before the end.
\<close>

definition usable_span :: "js_runtime \<Rightarrow> reader \<Rightarrow> jsobj \<Rightarrow> bool" where
  "usable_span rt rd assignment =
     (case find (\<lambda>a. strict_eq (prop_of a ''task_id'') (prop_of assignment ''task_id''))
             (activities rd) of
        None \<Rightarrow> False
      | Some act \<Rightarrow>
          (let startDate = js_or (prop_of act ''act_start_date'') (prop_of act ''early_start_date'');
               endDate = js_or (prop_of act ''act_end_date'') (prop_of act ''early_end_date'')
           in truthy startDate \<and> truthy endDate \<and>
              (case (new_Date rt startDate, new_Date rt endDate) of
                 (Some s, Some e) \<Rightarrow> s < e
               | _ \<Rightarrow> False)))"

text \<open>
  An assignment whose last week is in range: the end of its activity is a valid date at
  least seven days before the end of the range of time values.
\<close>

definition week_after_end :: "js_runtime \<Rightarrow> reader \<Rightarrow> jsobj \<Rightarrow> bool" where
  "week_after_end rt rd assignment =
     (case find (\<lambda>a. strict_eq (prop_of a ''task_id'') (prop_of assignment ''task_id''))
             (activities rd) of
        None \<Rightarrow> False
      | Some act \<Rightarrow>
          (case new_Date rt (js_or (prop_of act ''act_end_date'') (prop_of act ''early_end_date'')) of
             None \<Rightarrow> False
           | Some e \<Rightarrow> e + weekInMs \<le> maxTime))"

text \<open>The sum of the target quantities of a list of assignments.\<close>

definition target_total :: "js_runtime \<Rightarrow> jsobj list \<Rightarrow> real" where
  "target_total rt asgs = sum_list (map (\<lambda>asg. convertToNumber rt (prop_of asg ''target_qty'')) asgs)"

text \<open>
  The part of an activity's target quantity that lies at or after the time \<open>c\<close>; the
  entries with valid dates and a start before the end; and those among them whose start is
  a time value and whose end is at least a week before the end of the range.
\<close>

definition covered :: "int \<Rightarrow> activity_datum \<Rightarrow> real" where
  "covered c a =
     (case (startDate a, endDate a) of
        (Some s, Some e) \<Rightarrow> targetQty a * (real_of_int (max 0 (e - max s c)) / real_of_int (e - s))
      | _ \<Rightarrow> 0)"

definition positive_span :: "activity_datum \<Rightarrow> bool" where
  "positive_span a = (case (startDate a, endDate a) of (Some s, Some e) \<Rightarrow> s < e | _ \<Rightarrow> False)"

definition span_in_range :: "activity_datum \<Rightarrow> bool" where
  "span_in_range a =
     (case (startDate a, endDate a) of
        (Some s, Some e) \<Rightarrow> - maxTime \<le> s \<and> e + weekInMs \<le> maxTime
      | _ \<Rightarrow> False)"

text \<open>One assignment of 70 units to an activity of exactly fourteen days.\<close>

definition example_reader14 :: reader where
  "example_reader14 = new_Reader
     \<lparr>activities := [example_activity ''T1'' 80 0 0 1209600000],
      activityResources := [example_assignment ''T1'' ''R1'' 70]\<rparr>"

text \<open>The same, with the fourteen days ending at the last time value.\<close>

definition example_reader_edge :: reader where
  "example_reader_edge = new_Reader
     \<lparr>activities := [example_activity ''T1'' 80 0 8639998790400000 8640000000000000],
      activityResources := [example_assignment ''T1'' ''R1'' 70]\<rparr>"

text \<open>
  The same schedule as text: a task table and an assignment table, read by the example
  host, with the records that the reader builds from them.
\<close>

definition reader_of :: "js_error + reader \<Rightarrow> reader" where
  "reader_of res = (case res of Inl e \<Rightarrow> new_Reader | Inr rd \<Rightarrow> rd)"

definition example_text14 :: string where
  "example_text14 =
     ''%T'' @ [tab] @ ''TASK'' @ [newline] @
     ''%F'' @ [tab] @ ''task_id'' @ [tab] @ ''early_start_date'' @ [tab] @ ''early_end_date'' @ [newline] @
     ''%R'' @ [tab] @ ''T1'' @ [tab] @ ''1970-01-01'' @ [tab] @ ''1970-01-15'' @ [newline] @
     ''%T'' @ [tab] @ ''TASKRSRC'' @ [newline] @
     ''%F'' @ [tab] @ ''task_id'' @ [tab] @ ''rsrc_id'' @ [tab] @ ''target_qty'' @ [newline] @
     ''%R'' @ [tab] @ ''T1'' @ [tab] @ ''R1'' @ [tab] @ ''70'' @ [newline]"

definition example_task14 :: jsobj where
  "example_task14 = convertTypes example_runtime
     (build_record Map.empty [''task_id'', ''early_start_date'', ''early_end_date'']
        [''T1'', ''1970-01-01'', ''1970-01-15'']) (Some SCHEMAS_TASK)"

definition example_assignment14 :: jsobj where
  "example_assignment14 = convertTypes example_runtime
     (build_record Map.empty [''task_id'', ''rsrc_id'', ''target_qty''] [''T1'', ''R1'', ''70''])
     (Some SCHEMAS_TASKRSRC)"

text \<open>
  A schedule as text whose one task lies in the last three days of the range of time
  values, with 70 units assigned, and the records that the reader builds from it.
\<close>

definition example_text_far :: string where
  "example_text_far =
     ''%T'' @ [tab] @ ''TASK'' @ [newline] @
     ''%F'' @ [tab] @ ''task_id'' @ [tab] @ ''early_start_date'' @ [tab] @ ''early_end_date'' @ [newline] @
     ''%R'' @ [tab] @ ''T9'' @ [tab] @ ''+275760-09-10T00:00:00.000Z'' @ [tab] @
       ''+275760-09-13T00:00:00.000Z'' @ [newline] @
     ''%T'' @ [tab] @ ''TASKRSRC'' @ [newline] @
     ''%F'' @ [tab] @ ''task_id'' @ [tab] @ ''rsrc_id'' @ [tab] @ ''target_qty'' @ [newline] @
     ''%R'' @ [tab] @ ''T9'' @ [tab] @ ''R1'' @ [tab] @ ''70'' @ [newline]"

definition example_task_far :: jsobj where
  "example_task_far = convertTypes example_runtime
     (build_record Map.empty [''task_id'', ''early_start_date'', ''early_end_date'']
        [''T9'', ''+275760-09-10T00:00:00.000Z'', ''+275760-09-13T00:00:00.000Z''])
     (Some SCHEMAS_TASK)"

definition example_assignment_far :: jsobj where
  "example_assignment_far = convertTypes example_runtime
     (build_record Map.empty [''task_id'', ''rsrc_id'', ''target_qty''] [''T9'', ''R1'', ''70''])
     (Some SCHEMAS_TASKRSRC)"

definition example_reader_far :: reader where
  "example_reader_far = reader_of (Reader_parseContent example_runtime new_Reader example_text_far)"

section \<open>Critical activities\<close>

lemma SCHEMAS_TASK_float: "SCHEMAS_TASK ''total_float_hr_cnt'' = Some ''number''"
  by (simp add: SCHEMAS_TASK_def)

lemma strict_eq_JStr [simp]: "strict_eq v (JStr s) = (v = JStr s)"
  by (cases v) auto

text \<open>
  Claim C3. An activity of the model is returned by \<open>getCriticalActivities\<close> exactly when
  its total float, read as a number, is 0 or its driving-path flag is \<open>Y\<close>; the result
  is the activity list filtered by that test, in order. An activity whose float is the
  number -5 and whose flag is not set is not returned: the boundary is float = 0, not
  float \<le> 0.
\<close>

theorem getCriticalActivities_iff:
  "(a \<in> set (getCriticalActivities rt rd)) =
     (a \<in> set (activities rd) \<and>
      (convertToNumber rt (prop_of a ''total_float_hr_cnt'') = 0 \<or>
       prop_of a ''driving_path_flag'' = JStr ''Y''))
   \<and> (prop_of a ''total_float_hr_cnt'' = JNum r \<longrightarrow>
        (a \<in> set (getCriticalActivities rt rd)) =
        (a \<in> set (activities rd) \<and> (r = 0 \<or> prop_of a ''driving_path_flag'' = JStr ''Y'')))
   \<and> (prop_of a ''total_float_hr_cnt'' = JNum (- 5) \<and> prop_of a ''driving_path_flag'' \<noteq> JStr ''Y''
        \<longrightarrow> a \<notin> set (getCriticalActivities rt rd))"
  by (auto simp: getCriticalActivities_def convertToNumber_def)

theorem getCriticalActivities_iff_witness:
  "\<forall>rt. prop_of example_late ''total_float_hr_cnt'' = JNum (- 5) \<and>
     prop_of example_late ''driving_path_flag'' \<noteq> JStr ''Y'' \<and>
     example_late \<notin> set (getCriticalActivities rt (new_Reader\<lparr>activities := [example_late]\<rparr>))"
proof
  fix rt
  have f: "prop_of example_late ''total_float_hr_cnt'' = JNum (- 5)"
    by (simp add: example_late_def example_activity_def prop_of_def)
  have d: "prop_of example_late ''driving_path_flag'' \<noteq> JStr ''Y''"
    by (simp add: example_late_def example_activity_def prop_of_def)
  from getCriticalActivities_iff [of example_late rt "new_Reader\<lparr>activities := [example_late]\<rparr>" "- 5"] f d
  show "prop_of example_late ''total_float_hr_cnt'' = JNum (- 5) \<and>
     prop_of example_late ''driving_path_flag'' \<noteq> JStr ''Y'' \<and>
     example_late \<notin> set (getCriticalActivities rt (new_Reader\<lparr>activities := [example_late]\<rparr>))"
    by blast
qed

text \<open>
  Claim C9. An activity of the model whose \<open>total_float_hr_cnt\<close> property is absent,
  undefined, null or the empty string reads as float 0 and is returned by
  \<open>getCriticalActivities\<close>. The same holds for a raw TASK record after its typed
  conversion: a missing or empty float makes the converted activity critical.
\<close>

theorem missing_float_is_critical:
  "((obj ''total_float_hr_cnt'' = None \<or> obj ''total_float_hr_cnt'' = Some JUndefined \<or>
     obj ''total_float_hr_cnt'' = Some JNull \<or> obj ''total_float_hr_cnt'' = Some (JStr [])) \<and>
    obj \<in> set (activities rd) \<longrightarrow>
      convertToNumber rt (prop_of obj ''total_float_hr_cnt'') = 0 \<and>
      obj \<in> set (getCriticalActivities rt rd))
   \<and> ((raw ''total_float_hr_cnt'' = None \<or> raw ''total_float_hr_cnt'' = Some JUndefined \<or>
        raw ''total_float_hr_cnt'' = Some JNull \<or> raw ''total_float_hr_cnt'' = Some (JStr [])) \<and>
       convertTypes rt raw (Some SCHEMAS_TASK) \<in> set (activities rd) \<longrightarrow>
         convertToNumber rt (prop_of (convertTypes rt raw (Some SCHEMAS_TASK)) ''total_float_hr_cnt'') = 0 \<and>
         convertTypes rt raw (Some SCHEMAS_TASK) \<in> set (getCriticalActivities rt rd))"
proof -
  have conv: "convertToNumber rt (prop_of (convertTypes rt raw (Some SCHEMAS_TASK)) ''total_float_hr_cnt'') = 0"
    if "raw ''total_float_hr_cnt'' = None \<or> raw ''total_float_hr_cnt'' = Some JUndefined \<or>
        raw ''total_float_hr_cnt'' = Some JNull \<or> raw ''total_float_hr_cnt'' = Some (JStr [])"
    using that
    by (auto simp: convertTypes_def SCHEMAS_TASK_float prop_of_def convertToNumber_def)
  have plain: "convertToNumber rt (prop_of obj ''total_float_hr_cnt'') = 0"
    if "obj ''total_float_hr_cnt'' = None \<or> obj ''total_float_hr_cnt'' = Some JUndefined \<or>
        obj ''total_float_hr_cnt'' = Some JNull \<or> obj ''total_float_hr_cnt'' = Some (JStr [])"
    using that by (auto simp: prop_of_def convertToNumber_def)
  show ?thesis
    using conv plain by (simp add: getCriticalActivities_def)
qed

theorem missing_float_is_critical_witness:
  "\<forall>rt. example_nofloat ''total_float_hr_cnt'' = None \<and>
     example_nullfloat ''total_float_hr_cnt'' = Some JNull \<and>
     example_undefinedfloat ''total_float_hr_cnt'' = Some JUndefined \<and>
     example_rawtask ''total_float_hr_cnt'' = Some (JStr []) \<and>
     getCriticalActivities rt (new_Reader\<lparr>activities :=
        [example_late, example_nofloat, example_nullfloat, example_undefinedfloat,
         convertTypes rt example_rawtask (Some SCHEMAS_TASK)]\<rparr>) =
       [example_nofloat, example_nullfloat, example_undefinedfloat,
        convertTypes rt example_rawtask (Some SCHEMAS_TASK)]"
proof
  fix rt
  let ?conv = "convertTypes rt example_rawtask (Some SCHEMAS_TASK)"
  let ?rd = "new_Reader\<lparr>activities :=
     [example_late, example_nofloat, example_nullfloat, example_undefinedfloat, ?conv]\<rparr>"
  have n: "example_nofloat ''total_float_hr_cnt'' = None"
    by (simp add: example_nofloat_def)
  have u: "example_nullfloat ''total_float_hr_cnt'' = Some JNull"
    "example_undefinedfloat ''total_float_hr_cnt'' = Some JUndefined"
    by (simp_all add: example_nullfloat_def example_undefinedfloat_def)
  have r: "example_rawtask ''total_float_hr_cnt'' = Some (JStr [])"
    by (simp add: example_rawtask_def)
  have m: "example_nofloat \<in> set (activities ?rd)" "example_nullfloat \<in> set (activities ?rd)"
    "example_undefinedfloat \<in> set (activities ?rd)" "?conv \<in> set (activities ?rd)"
    by simp_all
  have z: "convertToNumber rt (prop_of example_nofloat ''total_float_hr_cnt'') = 0"
    "convertToNumber rt (prop_of ?conv ''total_float_hr_cnt'') = 0"
    using missing_float_is_critical [of example_nofloat ?rd rt example_rawtask] n r m by blast+
  have z2: "convertToNumber rt (prop_of example_nullfloat ''total_float_hr_cnt'') = 0"
    using missing_float_is_critical [of example_nullfloat ?rd rt example_rawtask] u m by blast
  have z3: "convertToNumber rt (prop_of example_undefinedfloat ''total_float_hr_cnt'') = 0"
    using missing_float_is_critical [of example_undefinedfloat ?rd rt example_rawtask] u m by blast
  have l: "convertToNumber rt (prop_of example_late ''total_float_hr_cnt'') \<noteq> 0"
    "prop_of example_late ''driving_path_flag'' \<noteq> JStr ''Y''"
    by (simp_all add: example_late_def example_activity_def prop_of_def convertToNumber_def)
  have "getCriticalActivities rt ?rd =
      [example_nofloat, example_nullfloat, example_undefinedfloat, ?conv]"
    by (simp add: getCriticalActivities_def z z2 z3 l)
  with n u r show "example_nofloat ''total_float_hr_cnt'' = None \<and>
     example_nullfloat ''total_float_hr_cnt'' = Some JNull \<and>
     example_undefinedfloat ''total_float_hr_cnt'' = Some JUndefined \<and>
     example_rawtask ''total_float_hr_cnt'' = Some (JStr []) \<and>
     getCriticalActivities rt ?rd =
       [example_nofloat, example_nullfloat, example_undefinedfloat, ?conv]"
    by blast
qed

section \<open>Summary statistics: the duration block\<close>

lemma fold_add_sum: "fold (\<lambda>d sum. sum + d) ds (acc::real) = acc + sum_list ds"
  by (induction ds arbitrary: acc) auto

lemma list_min_Min: "ds \<noteq> [] \<Longrightarrow> list_min ds = Min (set ds)"
  by (cases ds) (simp_all add: list_min_def Min.set_eq_fold [symmetric])

lemma list_max_Max: "ds \<noteq> [] \<Longrightarrow> list_max ds = Max (set ds)"
  by (cases ds) (simp_all add: list_max_def Max.set_eq_fold [symmetric])

text \<open>
  Claim C10. The result of \<open>getSummaryStats\<close> holds \<open>durationStats\<close> exactly when
  some activity has a positive duration; it then holds the sum, the mean, the least and the
  greatest of the positive durations. With no positive duration the field is absent.
\<close>

theorem durationStats_present_iff:
  "(durationStats (getSummaryStats rt rd) = None) =
     (\<not> (\<exists>a \<in> set (activities rd). convertToNumber rt (prop_of a ''target_drtn_hr_cnt'') > 0))
   \<and> ((\<exists>a \<in> set (activities rd). convertToNumber rt (prop_of a ''target_drtn_hr_cnt'') > 0) \<longrightarrow>
        durationStats (getSummaryStats rt rd) =
          Some \<lparr>total = sum_list (positive_durations rt rd),
                average = sum_list (positive_durations rt rd) / real (length (positive_durations rt rd)),
                minimum = Min (set (positive_durations rt rd)),
                maximum = Max (set (positive_durations rt rd))\<rparr>)"
proof -
  let ?ds = "positive_durations rt rd"
  have e: "(?ds = []) = (\<not> (\<exists>a \<in> set (activities rd). convertToNumber rt (prop_of a ''target_drtn_hr_cnt'') > 0))"
    by (auto simp: positive_durations_def filter_empty_conv)
  have s: "durationStats (getSummaryStats rt rd) =
      (if ?ds = [] then None else Some \<lparr>total = sum_list ?ds,
                average = sum_list ?ds / real (length ?ds),
                minimum = Min (set ?ds),
                maximum = Max (set ?ds)\<rparr>)"
    by (simp add: getSummaryStats_def Let_def positive_durations_def [symmetric] fold_add_sum
        list_min_Min list_max_Max)
  show ?thesis using e s by (auto simp: not_less)
qed

lemma example_durations:
  "convertToNumber rt (prop_of example_milestone ''target_drtn_hr_cnt'') = 0"
  "convertToNumber rt (prop_of example_late ''target_drtn_hr_cnt'') = 40"
  "convertToNumber rt (prop_of example_long ''target_drtn_hr_cnt'') = 80"
  by (simp_all add: example_milestone_def example_late_def example_long_def example_activity_def
      prop_of_def convertToNumber_def)

theorem durationStats_present_iff_witness:
  "\<forall>rt. durationStats (getSummaryStats rt (new_Reader\<lparr>activities := [example_milestone]\<rparr>)) = None \<and>
     durationStats (getSummaryStats rt
        (new_Reader\<lparr>activities := [example_late, example_milestone, example_long]\<rparr>)) =
       Some \<lparr>total = 120, average = 60, minimum = 40, maximum = 80\<rparr>"
proof
  fix rt
  let ?r1 = "new_Reader\<lparr>activities := [example_milestone]\<rparr>"
  let ?r2 = "new_Reader\<lparr>activities := [example_late, example_milestone, example_long]\<rparr>"
  have a: "durationStats (getSummaryStats rt ?r1) = None"
    using durationStats_present_iff [of rt ?r1] by (simp add: example_durations)
  have p: "positive_durations rt ?r2 = [40, 80]"
    by (simp add: positive_durations_def example_durations)
  have b: "durationStats (getSummaryStats rt ?r2) =
       Some \<lparr>total = 120, average = 60, minimum = 40, maximum = 80\<rparr>"
    using durationStats_present_iff [of rt ?r2] by (simp add: example_durations p)
  from a b show "durationStats (getSummaryStats rt ?r1) = None \<and>
     durationStats (getSummaryStats rt ?r2) =
       Some \<lparr>total = 120, average = 60, minimum = 40, maximum = 80\<rparr>"
    by blast
qed

section \<open>Typed conversion of a record\<close>

lemma ex_num: "ToNumber example_runtime (JStr ''abc'') = None"
  by (simp add: example_runtime_def digits_number_def digit_of_def)

lemma ex_num70: "convertToNumber example_runtime (JStr ''70'') = 70"
  by (simp add: convertToNumber_def example_runtime_def digits_number_def digit_of_def)

text \<open>
  Claim C6. \<open>convertTypes\<close> without a schema returns the record. With a schema, a field
  of the record typed \<open>number\<close> becomes a number, and the number 0 when its value is
  null, undefined, the empty string or does not read as a number; a field typed \<open>date\<close>
  becomes null when its value is empty or does not read as a date; a field typed
  \<open>boolean\<close> becomes true exactly for the values \<open>Y\<close>, \<open>true\<close> and \<open>1\<close>; a
  field typed \<open>string\<close> and a field the schema does not hold keep their value; a field
  the record does not hold stays absent.
\<close>

theorem convertTypes_fields:
  "(convertTypes rt record None = record)
   \<and> (record field = None \<longrightarrow> convertTypes rt record (Some schema) field = None)
   \<and> (record field = Some v \<and> schema field = Some ''number'' \<longrightarrow>
        convertTypes rt record (Some schema) field = Some (JNum (convertToNumber rt v)) \<and>
        (v = JNull \<or> v = JUndefined \<or> v = JStr [] \<or> ToNumber rt v = None \<longrightarrow>
           convertTypes rt record (Some schema) field = Some (JNum 0)))
   \<and> (record field = Some v \<and> schema field = Some ''date'' \<longrightarrow>
        (v = JStr [] \<or> new_Date rt v = None \<longrightarrow>
           convertTypes rt record (Some schema) field = Some JNull) \<and>
        (v \<noteq> JStr [] \<and> truthy v \<and> new_Date rt v = Some t \<longrightarrow>
           convertTypes rt record (Some schema) field = Some (JDate t)))
   \<and> (record field = Some v \<and> schema field = Some ''boolean'' \<longrightarrow>
        convertTypes rt record (Some schema) field =
          Some (JBool (v = JStr ''Y'' \<or> v = JStr ''true'' \<or> v = JStr ''1'')))
   \<and> (record field = Some v \<and> schema field = Some ''string'' \<longrightarrow>
        convertTypes rt record (Some schema) field = Some v)
   \<and> (record field = Some v \<and> schema field = None \<longrightarrow>
        convertTypes rt record (Some schema) field = Some v)"
  by (auto simp: convertTypes_def convertToNumber_def convertToDate_def)

theorem convertTypes_fields_witness:
  "map (convertTypes example_runtime example_raw (Some example_schema))
     [''qty'', ''cost'', ''hours'', ''start'', ''finish'', ''begin'', ''flag'', ''done'', ''name'',
      ''extra'', ''absent''] =
     [Some (JNum 0), Some (JNum 0), Some (JNum 70), Some JNull, Some JNull,
      Some (JDate 1209600000), Some (JBool True), Some (JBool False), Some (JStr ''Pour slab''),
      Some (JStr ''raw''), None]"
proof -
  let ?c = "convertTypes example_runtime example_raw (Some example_schema)"
  note T = convertTypes_fields [of example_runtime example_raw _ example_schema]
  have r: "example_raw ''qty'' = Some (JStr ''abc'')" "example_raw ''cost'' = Some (JStr [])"
    "example_raw ''hours'' = Some (JStr ''70'')" "example_raw ''start'' = Some (JStr [])"
    "example_raw ''finish'' = Some (JStr ''never'')"
    "example_raw ''begin'' = Some (JStr ''1970-01-15'')" "example_raw ''flag'' = Some (JStr ''Y'')"
    "example_raw ''done'' = Some (JStr ''yes'')" "example_raw ''name'' = Some (JStr ''Pour slab'')"
    "example_raw ''extra'' = Some (JStr ''raw'')" "example_raw ''absent'' = None"
    by (simp_all add: example_raw_def)
  have s: "example_schema ''qty'' = Some ''number''" "example_schema ''cost'' = Some ''number''"
    "example_schema ''hours'' = Some ''number''" "example_schema ''start'' = Some ''date''"
    "example_schema ''finish'' = Some ''date''" "example_schema ''begin'' = Some ''date''"
    "example_schema ''flag'' = Some ''boolean''"
    "example_schema ''done'' = Some ''boolean''" "example_schema ''name'' = Some ''string''"
    "example_schema ''extra'' = None"
    by (simp_all add: example_schema_def)
  have d: "new_Date example_runtime (JStr ''never'') = None"
    by (simp add: example_runtime_def example_dates_def)
  have e: "JStr ''1970-01-15'' \<noteq> JStr [] \<and> truthy (JStr ''1970-01-15'') \<and>
           new_Date example_runtime (JStr ''1970-01-15'') = Some 1209600000"
    by (simp add: example_runtime_def example_dates_def TimeClip_def maxTime_def)
  have 1: "?c ''qty'' = Some (JNum 0)" using r s ex_num T [of "''qty''" "JStr ''abc''"] by blast
  have 2: "?c ''cost'' = Some (JNum 0)" using T [of "''cost''" "JStr []"] r s by blast
  have 3: "?c ''hours'' = Some (JNum 70)" using r s ex_num70 T [of "''hours''" "JStr ''70''"] by simp
  have 4: "?c ''start'' = Some JNull" using T [of "''start''" "JStr []"] r s by blast
  have 5: "?c ''finish'' = Some JNull" using r s d T [of "''finish''" "JStr ''never''"] by blast
  have 6: "?c ''begin'' = Some (JDate 1209600000)"
    using r s e T [of "''begin''" "JStr ''1970-01-15''" 1209600000] by blast
  have 7: "?c ''flag'' = Some (JBool True)" using r s T [of "''flag''" "JStr ''Y''"] by simp
  have 8: "?c ''done'' = Some (JBool False)" using r s T [of "''done''" "JStr ''yes''"] by simp
  have 9: "?c ''name'' = Some (JStr ''Pour slab'')" using r s T [of "''name''" "JStr ''Pour slab''"] by simp
  have 10: "?c ''extra'' = Some (JStr ''raw'')" using r s T [of "''extra''" "JStr ''raw''"] by simp
  have 11: "?c ''absent'' = None" using r T [of "''absent''"] by simp
  show ?thesis using 1 2 3 4 5 6 7 8 9 10 11 by simp
qed

section \<open>Integrity checks without relationships\<close>

text \<open>
  Claim C8. On an empty relationship list the checks Leads, Lags and Relationship Types
  each return the status \<open>pass\<close>; so points 2, 3 and 4 of an assessment pass when the
  reader holds no relationship.
\<close>

theorem zero_relationships_pass:
  "status (checkLeads rt []) = ''pass'' \<and>
   status (checkLags rt []) = ''pass'' \<and>
   status (checkRelationshipTypes rt []) = ''pass'' \<and>
   (relationships (currentReader app) = [] \<longrightarrow>
      map status (take 3 (drop 1 (points (runDCMA14Assessment rt app)))) =
        [''pass'', ''pass'', ''pass''] \<and>
      map number (take 3 (drop 1 (points (runDCMA14Assessment rt app)))) = [2, 3, 4])"
  by (simp add: checkLeads_def checkLags_def checkRelationshipTypes_def
      runDCMA14Assessment_def run_checks_def Let_def)

theorem zero_relationships_pass_witness:
  "\<forall>rt. relationships (currentReader \<lparr>allActivities = [example_late], currentReader = new_Reader\<lparr>activities := [example_late]\<rparr>\<rparr>) = [] \<and>
     map status (take 3 (drop 1 (points (runDCMA14Assessment rt
        \<lparr>allActivities = [example_late], currentReader = new_Reader\<lparr>activities := [example_late]\<rparr>\<rparr>)))) =
        [''pass'', ''pass'', ''pass'']"
proof
  fix rt
  let ?app = "\<lparr>allActivities = [example_late], currentReader = new_Reader\<lparr>activities := [example_late]\<rparr>\<rparr>"
  have r: "relationships (currentReader ?app) = []"
    by (simp add: new_Reader_def)
  with zero_relationships_pass [of rt ?app]
  show "relationships (currentReader ?app) = [] \<and>
     map status (take 3 (drop 1 (points (runDCMA14Assessment rt ?app)))) = [''pass'', ''pass'', ''pass'']"
    by blast
qed

section \<open>Tokenizer: totality and tolerance\<close>

lemma process_line_ready:
  assumes "table_ready st"
  shows "\<exists>st'. process_line st line = Inr st' \<and> table_ready st'"
  using assms
  by (auto simp: process_line_def table_ready_def split: option.splits)

lemma process_lines_ready:
  "table_ready st \<Longrightarrow> \<exists>st'. process_lines st lines = Inr st' \<and> table_ready st'"
proof (induction lines arbitrary: st)
  case Nil
  then show ?case by simp
next
  case (Cons line lines)
  from process_line_ready [OF Cons.prems] obtain st1
    where s: "process_line st line = Inr st1" and r: "table_ready st1" by blast
  from Cons.IH [OF r] s show ?case by simp
qed

lemma marker_distinct:
  "startsWith line (''%R'' @ [tab]) \<Longrightarrow> \<not> startsWith line (''%T'' @ [tab]) \<and> \<not> startsWith line (''%F'' @ [tab])"
  by (auto simp: startsWith_def)

lemma process_line_no_table:
  assumes "currentTable st = None" "\<not> startsWith line (''%T'' @ [tab])"
  shows "\<exists>st'. process_line st line = Inr st' \<and> data st' = data st \<and> currentTable st' = None"
  using assms by (auto simp: process_line_def)

lemma process_lines_no_table:
  "currentTable st = None \<Longrightarrow> \<forall>line \<in> set lines. \<not> startsWith line (''%T'' @ [tab]) \<Longrightarrow>
   \<exists>st'. process_lines st lines = Inr st' \<and> data st' = data st \<and> currentTable st' = None"
proof (induction lines arbitrary: st)
  case Nil
  then show ?case by simp
next
  case (Cons line lines)
  from Cons.prems have n: "\<not> startsWith line (''%T'' @ [tab])" by simp
  from process_line_no_table [OF Cons.prems(1) n] obtain st1
    where s: "process_line st line = Inr st1" and d: "data st1 = data st"
      and c: "currentTable st1 = None" by blast
  from Cons.prems have "\<forall>l \<in> set lines. \<not> startsWith l (''%T'' @ [tab])" by simp
  from Cons.IH [OF c this] s d show ?case by simp
qed

lemma example_garbage_lines:
  "content_lines example_garbage =
     [''junk'', ''%R'' @ [tab] @ ''1'' @ [tab] @ ''2'', ''%F'' @ [tab] @ ''a'', ''%X'' @ [tab] @ ''q'']"
  by (simp add: example_garbage_def content_lines_def trim_def tab_def newline_def js_whitespace_def)

text \<open>
  Claim C7. \<open>parseContent\<close> returns a table map for every input string and raises
  nothing. Input without a table line gives the empty map, whatever data rows and other
  lines it holds. In the loop, a data row met while no table is current leaves the state
  as it is, and so does a line that starts with none of the three markers.
\<close>

theorem parseContent_total:
  "(\<exists>d. parseContent content = Inr d)
   \<and> ((\<forall>line \<in> set (content_lines garbage). \<not> startsWith line (''%T'' @ [tab])) \<longrightarrow>
        parseContent garbage = Inr Map.empty)
   \<and> (startsWith row (''%R'' @ [tab]) \<and> currentTable st = None \<longrightarrow> process_line st row = Inr st)
   \<and> (\<not> startsWith other (''%T'' @ [tab]) \<and> \<not> startsWith other (''%F'' @ [tab]) \<and>
       \<not> startsWith other (''%R'' @ [tab]) \<longrightarrow> process_line st other = Inr st)"
proof -
  let ?init = "\<lparr>data = Map.empty, currentTable = None, currentFields = []\<rparr>"
  have "table_ready ?init" by (simp add: table_ready_def)
  from process_lines_ready [OF this, of "content_lines content"]
  have 1: "\<exists>d. parseContent content = Inr d" by (auto simp: parseContent_def)
  have 2: "parseContent garbage = Inr Map.empty"
    if "\<forall>line \<in> set (content_lines garbage). \<not> startsWith line (''%T'' @ [tab])"
    using process_lines_no_table [of ?init "content_lines garbage"] that
    by (auto simp: parseContent_def)
  have 3: "process_line st row = Inr st"
    if "startsWith row (''%R'' @ [tab])" "currentTable st = None"
    using that marker_distinct [of row] by (simp add: process_line_def)
  have 4: "process_line st other = Inr st"
    if "\<not> startsWith other (''%T'' @ [tab])" "\<not> startsWith other (''%F'' @ [tab])"
       "\<not> startsWith other (''%R'' @ [tab])"
    using that by (simp add: process_line_def)
  from 1 2 3 4 show ?thesis by blast
qed

theorem parseContent_total_witness:
  "parseContent example_garbage = Inr Map.empty \<and>
   startsWith (''%R'' @ [tab] @ ''1'' @ [tab] @ ''2'') (''%R'' @ [tab]) \<and>
   currentTable example_state = None \<and>
   process_line example_state (''%R'' @ [tab] @ ''1'' @ [tab] @ ''2'') = Inr example_state \<and>
   process_line example_state ''junk'' = Inr example_state"
proof -
  have g: "\<forall>line \<in> set (content_lines example_garbage). \<not> startsWith line (''%T'' @ [tab])"
    by (simp add: example_garbage_lines startsWith_def tab_def)
  have r: "startsWith (''%R'' @ [tab] @ ''1'' @ [tab] @ ''2'') (''%R'' @ [tab])"
    by (simp add: startsWith_def)
  have c: "currentTable example_state = None"
    by (simp add: example_state_def)
  have j: "\<not> startsWith ''junk'' (''%T'' @ [tab])" "\<not> startsWith ''junk'' (''%F'' @ [tab])"
    "\<not> startsWith ''junk'' (''%R'' @ [tab])"
    by (simp_all add: startsWith_def)
  from parseContent_total [of example_garbage example_garbage
      "''%R'' @ [tab] @ ''1'' @ [tab] @ ''2''" example_state "''junk''"] g r c j
  show ?thesis by blast
qed

section \<open>Tokenizer: a data row shorter than the field list\<close>

lemma js_or_JStr: "js_or (JStr v) (JStr []) = JStr v"
  by (simp add: js_or_def)

lemma build_record_other:
  "f \<notin> set (take (length vs) fs) \<Longrightarrow> build_record rcd fs vs f = rcd f"
  by (induction rcd fs vs rule: build_record.induct) (auto simp: set_prop_def)

lemma build_record_dom:
  "dom (build_record rcd fs vs) = dom rcd \<union> (set (take (length vs) fs) - {''__proto__''})"
  by (induction rcd fs vs rule: build_record.induct) (auto simp: set_prop_def)

lemma build_record_nth:
  "i < length fs \<Longrightarrow> i < length vs \<Longrightarrow> fs ! i \<noteq> ''__proto__'' \<Longrightarrow>
   fs ! i \<notin> set (drop (Suc i) (take (length vs) fs)) \<Longrightarrow>
   build_record rcd fs vs (fs ! i) = Some (JStr (vs ! i))"
proof (induction rcd fs vs arbitrary: i rule: build_record.induct)
  case (1 rcd f fs v vs)
  show ?case
  proof (cases i)
    case 0
    with "1.prems" have "f \<notin> set (take (length vs) fs)" by simp
    from build_record_other [OF this] 0 "1.prems" show ?thesis
      by (simp add: set_prop_def js_or_JStr)
  next
    case (Suc j)
    with "1.prems" "1.IH" [of j] show ?thesis by simp
  qed
qed simp_all

lemma ex_split: "split_str (substring (''%R'' @ [tab] @ ''A1'' @ [tab] @ ''Dig'') 3) tab = [''A1'', ''Dig'']"
  by (simp add: substring_def tab_def)

text \<open>
  Claim C4, as the code has it. A data row met with a current table and a field list that
  is not empty appends one record to the table. The record binds the field names at the
  positions that have a value, and no other name: a field beyond the supplied values is
  absent from the record and is not bound to the empty string. A name at a position with a
  value is bound to that value when no later such position repeats it; the name
  \<open>__proto__\<close> is never bound.
\<close>

theorem data_row_record:
  assumes "startsWith line (''%R'' @ [tab])"
    and "currentTable st = Some table" and "table \<noteq> []"
    and "currentFields st \<noteq> []" and "data st table = Some rows"
    and "vs = split_str (substring line 3) tab"
    and "rcd = build_record Map.empty (currentFields st) vs"
  shows "process_line st line = Inr (st\<lparr>data := (data st)(table \<mapsto> rows @ [rcd])\<rparr>)
     \<and> dom rcd = set (take (length vs) (currentFields st)) - {''__proto__''}
     \<and> (\<forall>i. length vs \<le> i \<and> i < length (currentFields st) \<and>
             currentFields st ! i \<notin> set (take (length vs) (currentFields st)) \<longrightarrow>
             rcd (currentFields st ! i) = None)
     \<and> (\<forall>i. i < length vs \<and> i < length (currentFields st) \<and>
             currentFields st ! i \<noteq> ''__proto__'' \<and>
             currentFields st ! i \<notin> set (drop (Suc i) (take (length vs) (currentFields st))) \<longrightarrow>
             rcd (currentFields st ! i) = Some (JStr (vs ! i)))"
proof -
  from assms(1) have m: "\<not> startsWith line (''%T'' @ [tab])" "\<not> startsWith line (''%F'' @ [tab])"
    by (auto simp: startsWith_def)
  have 1: "process_line st line = Inr (st\<lparr>data := (data st)(table \<mapsto> rows @ [rcd])\<rparr>)"
    using assms m by (simp add: process_line_def)
  have 2: "dom rcd = set (take (length vs) (currentFields st)) - {''__proto__''}"
    using assms(7) by (simp add: build_record_dom)
  have 3: "rcd (currentFields st ! i) = None"
    if "currentFields st ! i \<notin> set (take (length vs) (currentFields st))" for i
    using that assms(7) by (simp add: build_record_other)
  have 4: "rcd (currentFields st ! i) = Some (JStr (vs ! i))"
    if "i < length vs" "i < length (currentFields st)" "currentFields st ! i \<noteq> ''__proto__''"
       "currentFields st ! i \<notin> set (drop (Suc i) (take (length vs) (currentFields st)))" for i
    using that assms(7) by (simp add: build_record_nth)
  from 1 2 3 4 show ?thesis by blast
qed

theorem data_row_record_witness:
  "process_line example_fields_state (''%R'' @ [tab] @ ''A1'' @ [tab] @ ''Dig'') =
     Inr (example_fields_state\<lparr>data := (data example_fields_state)(''TASK'' \<mapsto>
        [build_record Map.empty [''task_id'', ''task_name'', ''wbs_id''] [''A1'', ''Dig'']])\<rparr>) \<and>
   build_record Map.empty [''task_id'', ''task_name'', ''wbs_id''] [''A1'', ''Dig''] ''task_id'' = Some (JStr ''A1'') \<and>
   build_record Map.empty [''task_id'', ''task_name'', ''wbs_id''] [''A1'', ''Dig''] ''task_name'' = Some (JStr ''Dig'') \<and>
   build_record Map.empty [''task_id'', ''task_name'', ''wbs_id''] [''A1'', ''Dig''] ''wbs_id'' = None"
proof -
  let ?line = "''%R'' @ [tab] @ ''A1'' @ [tab] @ ''Dig''"
  let ?r = "build_record Map.empty [''task_id'', ''task_name'', ''wbs_id''] [''A1'', ''Dig'']"
  have a: "startsWith ?line (''%R'' @ [tab])" by (simp add: startsWith_def)
  have b: "currentTable example_fields_state = Some ''TASK''" "''TASK'' \<noteq> []"
    "currentFields example_fields_state \<noteq> []" "data example_fields_state ''TASK'' = Some []"
    by (simp_all add: example_fields_state_def)
  have f: "currentFields example_fields_state = [''task_id'', ''task_name'', ''wbs_id'']"
    by (simp add: example_fields_state_def)
  have c: "[''A1'', ''Dig''] = split_str (substring ?line 3) tab" by (rule ex_split [symmetric])
  have d: "?r = build_record Map.empty (currentFields example_fields_state) [''A1'', ''Dig'']"
    by (simp add: f)
  note T = data_row_record [OF a b c d, unfolded f]
  from T have 1: "process_line example_fields_state ?line =
     Inr (example_fields_state\<lparr>data := (data example_fields_state)(''TASK'' \<mapsto> [?r])\<rparr>)"
    by simp
  from T have all: "\<forall>i. i < length [''A1'', ''Dig''] \<and> i < length [''task_id'', ''task_name'', ''wbs_id''] \<and>
             [''task_id'', ''task_name'', ''wbs_id''] ! i \<noteq> ''__proto__'' \<and>
             [''task_id'', ''task_name'', ''wbs_id''] ! i \<notin> set (drop (Suc i) (take (length [''A1'', ''Dig'']) [''task_id'', ''task_name'', ''wbs_id''])) \<longrightarrow>
             ?r ([''task_id'', ''task_name'', ''wbs_id''] ! i) = Some (JStr ([''A1'', ''Dig''] ! i))"
    by blast
  from T have none: "\<forall>i. length [''A1'', ''Dig''] \<le> i \<and> i < length [''task_id'', ''task_name'', ''wbs_id''] \<and>
             [''task_id'', ''task_name'', ''wbs_id''] ! i \<notin> set (take (length [''A1'', ''Dig'']) [''task_id'', ''task_name'', ''wbs_id'']) \<longrightarrow>
             ?r ([''task_id'', ''task_name'', ''wbs_id''] ! i) = None"
    by blast
  from all [rule_format, of 0] have 2: "?r ''task_id'' = Some (JStr ''A1'')" by simp
  from all [rule_format, of 1] have 3: "?r ''task_name'' = Some (JStr ''Dig'')" by simp
  from none [rule_format, of 2] have 4: "?r ''wbs_id'' = None" by simp
  from 1 2 3 4 show ?thesis by blast
qed

text \<open>
  The claim as stated fails on a table with fields \<open>task_id\<close>, \<open>task_name\<close>,
  \<open>wbs_id\<close> and the data row \<open>A1\<close>, \<open>Dig\<close>: the record has no \<open>wbs_id\<close>.
\<close>

theorem short_row_counterexample:
  "column ''task_id'' (rows_of (parseContent example_short_row) ''TASK'') = [Some (JStr ''A1'')] \<and>
   column ''task_name'' (rows_of (parseContent example_short_row) ''TASK'') = [Some (JStr ''Dig'')] \<and>
   column ''wbs_id'' (rows_of (parseContent example_short_row) ''TASK'') = [None] \<and>
   column ''wbs_id'' (rows_of (parseContent example_short_row) ''TASK'') \<noteq> [Some (JStr [])]"
  by (simp add: example_short_row_def parseContent_def content_lines_def trim_def tab_def
      newline_def js_whitespace_def process_line_def startsWith_def substring_def set_prop_def
      js_or_def rows_of_def column_def)

section \<open>Integrity assessment: score and grade\<close>

lemma length_run_checks: "length (run_checks rt app) = 14"
  by (simp add: run_checks_def Let_def)

lemma set_grade_fields:
  "score (set_grade sm) = score sm \<and> passedPoints (set_grade sm) = passedPoints sm \<and>
   totalPoints (set_grade sm) = totalPoints sm \<and>
   grade (set_grade sm) = (if score sm \<ge> 90 then ''A'' else if score sm \<ge> 80 then ''B''
      else if score sm \<ge> 70 then ''C'' else if score sm \<ge> 60 then ''D'' else ''F'')"
  by (simp add: set_grade_def)

lemma upto_14_cases:
  "(n::nat) \<le> 14 \<Longrightarrow> n \<in> {0, 1, 2, 3, 4, 5, 6, 7, 8, 9, 10, 11, 12, 13, 14}"
  by (simp only: insert_iff empty_iff) presburger

lemma round_table:
  "n \<le> 14 \<Longrightarrow> Math_round (real n / real (14::nat) * 100) =
     [0, 7, 14, 21, 29, 36, 43, 50, 57, 64, 71, 79, 86, 93, 100] ! n"
  by (drule upto_14_cases) (auto simp: Math_round_def)

lemma example_props:
  "prop_of (example_activity tid dur flt s e) ''task_id'' = JStr tid"
  "prop_of (example_activity tid dur flt s e) ''status_code'' = JStr ''TK_NotStart''"
  "prop_of (example_activity tid dur flt s e) ''target_drtn_hr_cnt'' = JNum dur"
  "prop_of (example_activity tid dur flt s e) ''total_float_hr_cnt'' = JNum flt"
  "prop_of (example_activity tid dur flt s e) ''driving_path_flag'' = JStr ''N''"
  "prop_of (example_activity tid dur flt s e) ''act_start_date'' = JUndefined"
  "prop_of (example_activity tid dur flt s e) ''act_end_date'' = JUndefined"
  "prop_of (example_activity tid dur flt s e) ''early_start_date'' = JDate s"
  "prop_of (example_activity tid dur flt s e) ''early_end_date'' = JDate e"
  "prop_of (example_activity tid dur flt s e) ''cstr_type'' = JUndefined"
  "prop_of (example_activity tid dur flt s e) ''phys_complete_pct'' = JUndefined"
  by (simp_all add: example_activity_def prop_of_def)

lemma example_rel_props:
  "prop_of (example_relationship p q) ''task_id'' = JStr q"
  "prop_of (example_relationship p q) ''pred_task_id'' = JStr p"
  "prop_of (example_relationship p q) ''pred_type'' = JStr ''PR_FS''"
  "prop_of (example_relationship p q) ''lag_hr_cnt'' = JNum 0"
  by (simp_all add: example_relationship_def prop_of_def)

lemma example_asg_props:
  "prop_of (example_assignment tid rid qty) ''task_id'' = JStr tid"
  "prop_of (example_assignment tid rid qty) ''rsrc_id'' = JStr rid"
  "prop_of (example_assignment tid rid qty) ''target_qty'' = JNum qty"
  by (simp_all add: example_assignment_def prop_of_def)

lemma example_checks:
  "status (checkLogic rt example_schedule example_links) = ''pass''"
  "status (checkLeads rt example_links) = ''pass''"
  "status (checkLags rt example_links) = ''pass''"
  "status (checkRelationshipTypes rt example_links) = ''pass''"
  "status (checkHardConstraints rt example_schedule) = ''pass''"
  "status (checkHighFloat rt example_schedule) = ''pass''"
  "status (checkNegativeFloat rt example_schedule) = ''pass''"
  "status (checkHighDuration rt example_schedule) = ''pass''"
  "status (checkInvalidDates rt example_schedule) = ''pass''"
  "status (checkResources rt example_schedule example_assignments) = ''pass''"
  "status (checkIncompleteActivities rt example_schedule) = ''pass''"
  "status (checkCriticalPath rt example_schedule) = ''pass''"
  by (simp_all add: checkLogic_def checkLeads_def checkLags_def checkRelationshipTypes_def
      checkHardConstraints_def checkHighFloat_def checkNegativeFloat_def checkHighDuration_def
      checkInvalidDates_def checkResources_def checkIncompleteActivities_def checkCriticalPath_def
      example_schedule_def example_links_def example_assignments_def
      example_props example_rel_props example_asg_props
      set_has_def float_or_0_def nan_test_def js_or_def date_gt_def Let_def
      TimeClip_def maxTime_def)

lemma example_app_fields:
  "allActivities example_app = example_schedule"
  "relationships (currentReader example_app) = example_links"
  "activityResources (currentReader example_app) = example_assignments"
  by (simp_all add: example_app_def)

lemma example_statuses:
  "map status (run_checks rt example_app) =
     [''pass'', ''pass'', ''pass'', ''pass'', ''pass'', ''pass'', ''pass'',
      ''pass'', ''pass'', ''pass'', ''pass'', ''pass'', ''pass'', ''pass'']"
  by (simp add: run_checks_def Let_def example_app_fields example_checks checkCD1_def checkCD234_def)

lemma late_checks:
  "map status (run_checks rt \<lparr>allActivities = [example_late],
      currentReader = new_Reader\<lparr>activities := [example_late]\<rparr>\<rparr>) =
     [''fail'', ''pass'', ''pass'', ''pass'', ''pass'', ''pass'', ''fail'',
      ''pass'', ''pass'', ''fail'', ''pass'', ''warning'', ''pass'', ''pass'']"
  by (simp add: run_checks_def Let_def new_Reader_def
      checkLogic_def checkLeads_def checkLags_def checkRelationshipTypes_def
      checkHardConstraints_def checkHighFloat_def checkNegativeFloat_def checkHighDuration_def
      checkInvalidDates_def checkResources_def checkIncompleteActivities_def checkCriticalPath_def
      checkCD1_def checkCD234_def example_late_def example_props
      set_has_def float_or_0_def nan_test_def js_or_def date_gt_def
      TimeClip_def maxTime_def)

lemma count_status_map:
  "length (filter (\<lambda>p. status p = s) pts) = length (filter (\<lambda>x. x = s) (map status pts))"
  by (simp add: filter_map comp_def)

lemma fold_count_all:
  "passedPoints (fold count_point pts sm) =
     passedPoints sm + length (filter (\<lambda>p. status p = ''pass'') pts) \<and>
   failedPoints (fold count_point pts sm) =
     failedPoints sm + length (filter (\<lambda>p. status p = ''fail'') pts) \<and>
   warningPoints (fold count_point pts sm) =
     warningPoints sm + length (filter (\<lambda>p. status p = ''warning'') pts) \<and>
   totalPoints (fold count_point pts sm) = totalPoints sm"
  by (induction pts arbitrary: sm) (auto simp: count_point_def)

lemma set_grade_counts:
  "failedPoints (set_grade sm) = failedPoints sm \<and> warningPoints (set_grade sm) = warningPoints sm"
  by (simp add: set_grade_def)

text \<open>
  Claim C2. The points of an assessment are the results of the fourteen checks on the
  activities, relationships and assignments of the application, in their order. When N of
  these fourteen checks return the status \<open>pass\<close>, the summary counts N passed points
  (and the checks that return \<open>fail\<close> and \<open>warning\<close> as failed and warning points), its
  score is 100 N / 14 rounded to the nearest integer (a half rounding up), which is the
  N-th entry of the table 0, 7, 14, 21, 29, 36, 43, 50, 57, 64, 71, 79, 86, 93, 100, and its
  grade is A from 90, B from 80, C from 70, D from 60 and F below. With all fourteen passed
  the score is 100 and the grade A.
\<close>

theorem assessment_score:
  fixes rt app
  defines "acts \<equiv> allActivities app"
  defines "rels \<equiv> relationships (currentReader app)"
  defines "asgs \<equiv> activityResources (currentReader app)"
  defines "checks \<equiv>
     [checkLogic rt acts rels, checkLeads rt rels, checkLags rt rels,
      checkRelationshipTypes rt rels, checkHardConstraints rt acts, checkHighFloat rt acts,
      checkNegativeFloat rt acts, checkHighDuration rt acts, checkInvalidDates rt acts,
      checkResources rt acts asgs, checkIncompleteActivities rt acts, checkCriticalPath rt acts,
      checkCD1, checkCD234]"
  defines "N \<equiv> length (filter (\<lambda>p. status p = ''pass'') checks)"
  defines "sm \<equiv> summary (runDCMA14Assessment rt app)"
  shows "points (runDCMA14Assessment rt app) = checks
     \<and> map number checks = [1, 2, 3, 4, 5, 6, 7, 8, 9, 10, 11, 12, 13, 14]
     \<and> N \<le> 14
     \<and> totalPoints sm = 14
     \<and> passedPoints sm = N
     \<and> failedPoints sm = length (filter (\<lambda>p. status p = ''fail'') checks)
     \<and> warningPoints sm = length (filter (\<lambda>p. status p = ''warning'') checks)
     \<and> score sm = \<lfloor>100 * real N / 14 + 1 / 2\<rfloor>
     \<and> score sm = [0, 7, 14, 21, 29, 36, 43, 50, 57, 64, 71, 79, 86, 93, 100] ! N
     \<and> grade sm =
         (if score sm \<ge> 90 then ''A'' else if score sm \<ge> 80 then ''B''
          else if score sm \<ge> 70 then ''C'' else if score sm \<ge> 60 then ''D''
          else ''F'')
     \<and> (N = 14 \<longrightarrow> score sm = 100 \<and> grade sm = ''A'')"
proof -
  let ?s0 = "\<lparr>totalPoints = 14, passedPoints = 0, failedPoints = 0, warningPoints = 0,
             score = 0, grade = ''F''\<rparr>"
  have rc: "run_checks rt app = checks"
    by (simp add: run_checks_def Let_def checks_def acts_def rels_def asgs_def)
  have pts: "points (runDCMA14Assessment rt app) = checks"
    by (simp add: runDCMA14Assessment_def Let_def rc)
  have nums: "map number checks = [1, 2, 3, 4, 5, 6, 7, 8, 9, 10, 11, 12, 13, 14]"
    by (simp add: checks_def checkLogic_def checkLeads_def checkLags_def
        checkRelationshipTypes_def checkHardConstraints_def checkHighFloat_def
        checkNegativeFloat_def checkHighDuration_def checkInvalidDates_def checkResources_def
        checkIncompleteActivities_def checkCriticalPath_def checkCD1_def checkCD234_def Let_def)
  have len: "length checks = 14"
    by (simp add: checks_def)
  have N14: "N \<le> 14"
    unfolding N_def using length_filter_le [of _ checks] len by metis
  have smd: "sm = set_grade (set_score (fold count_point checks ?s0))"
    by (simp add: sm_def runDCMA14Assessment_def Let_def rc)
  note cnt = fold_count_all [of checks ?s0]
  have pp: "passedPoints (fold count_point checks ?s0) = N"
    "totalPoints (fold count_point checks ?s0) = 14"
    using cnt by (simp_all add: N_def)
  have tot: "totalPoints sm = 14"
    by (simp add: smd set_grade_fields set_score_def pp)
  have passed: "passedPoints sm = N"
    by (simp add: smd set_grade_fields set_score_def pp)
  have failed: "failedPoints sm = length (filter (\<lambda>p. status p = ''fail'') checks)"
    using cnt by (simp add: smd set_grade_counts set_score_def)
  have warned: "warningPoints sm = length (filter (\<lambda>p. status p = ''warning'') checks)"
    using cnt by (simp add: smd set_grade_counts set_score_def)
  have sc: "score sm = Math_round (real N / real (14::nat) * 100)"
    by (simp add: smd set_grade_fields set_score_def pp)
  then have sc1: "score sm = \<lfloor>100 * real N / 14 + 1 / 2\<rfloor>"
    by (simp add: Math_round_def mult.commute)
  have sc2: "score sm = [0, 7, 14, 21, 29, 36, 43, 50, 57, 64, 71, 79, 86, 93, 100] ! N"
    using sc round_table [OF N14] by simp
  have gr: "grade sm =
         (if score sm \<ge> 90 then ''A'' else if score sm \<ge> 80 then ''B''
          else if score sm \<ge> 70 then ''C'' else if score sm \<ge> 60 then ''D''
          else ''F'')"
    by (simp add: smd set_grade_fields set_score_def)
  have all: "score sm = 100 \<and> grade sm = ''A''" if "N = 14"
    using that sc2 gr by simp
  from pts nums N14 tot passed failed warned sc1 sc2 gr all show ?thesis by blast
qed

theorem assessment_score_witness:
  "\<forall>rt. map status (points (runDCMA14Assessment rt example_app)) =
       [''pass'', ''pass'', ''pass'', ''pass'', ''pass'', ''pass'', ''pass'',
        ''pass'', ''pass'', ''pass'', ''pass'', ''pass'', ''pass'', ''pass''] \<and>
     passedPoints (summary (runDCMA14Assessment rt example_app)) = 14 \<and>
     failedPoints (summary (runDCMA14Assessment rt example_app)) = 0 \<and>
     warningPoints (summary (runDCMA14Assessment rt example_app)) = 0 \<and>
     score (summary (runDCMA14Assessment rt example_app)) = 100 \<and>
     grade (summary (runDCMA14Assessment rt example_app)) = ''A'' \<and>
     map status (points (runDCMA14Assessment rt \<lparr>allActivities = [example_late],
        currentReader = new_Reader\<lparr>activities := [example_late]\<rparr>\<rparr>)) =
       [''fail'', ''pass'', ''pass'', ''pass'', ''pass'', ''pass'', ''fail'',
        ''pass'', ''pass'', ''fail'', ''pass'', ''warning'', ''pass'', ''pass''] \<and>
     passedPoints (summary (runDCMA14Assessment rt \<lparr>allActivities = [example_late],
        currentReader = new_Reader\<lparr>activities := [example_late]\<rparr>\<rparr>)) = 10 \<and>
     failedPoints (summary (runDCMA14Assessment rt \<lparr>allActivities = [example_late],
        currentReader = new_Reader\<lparr>activities := [example_late]\<rparr>\<rparr>)) = 3 \<and>
     warningPoints (summary (runDCMA14Assessment rt \<lparr>allActivities = [example_late],
        currentReader = new_Reader\<lparr>activities := [example_late]\<rparr>\<rparr>)) = 1 \<and>
     score (summary (runDCMA14Assessment rt \<lparr>allActivities = [example_late],
        currentReader = new_Reader\<lparr>activities := [example_late]\<rparr>\<rparr>)) = 71 \<and>
     grade (summary (runDCMA14Assessment rt \<lparr>allActivities = [example_late],
        currentReader = new_Reader\<lparr>activities := [example_late]\<rparr>\<rparr>)) = ''C''"
proof
  fix rt
  let ?late = "\<lparr>allActivities = [example_late],
        currentReader = new_Reader\<lparr>activities := [example_late]\<rparr>\<rparr>"
  let ?A = "runDCMA14Assessment rt example_app"
  let ?B = "runDCMA14Assessment rt ?late"
  note TA = assessment_score [of rt example_app, folded run_checks_def [of rt example_app, unfolded Let_def]]
  note TB = assessment_score [of rt ?late, folded run_checks_def [of rt ?late, unfolded Let_def]]
  have pa: "points ?A = run_checks rt example_app" and pb: "points ?B = run_checks rt ?late"
    using TA TB by blast+
  have sa: "map status (run_checks rt example_app) =
       [''pass'', ''pass'', ''pass'', ''pass'', ''pass'', ''pass'', ''pass'',
        ''pass'', ''pass'', ''pass'', ''pass'', ''pass'', ''pass'', ''pass'']"
    by (rule example_statuses)
  have sb: "map status (run_checks rt ?late) =
     [''fail'', ''pass'', ''pass'', ''pass'', ''pass'', ''pass'', ''fail'',
      ''pass'', ''pass'', ''fail'', ''pass'', ''warning'', ''pass'', ''pass'']"
    by (rule late_checks)
  have na: "length (filter (\<lambda>p. status p = ''pass'') (run_checks rt example_app)) = 14"
    "length (filter (\<lambda>p. status p = ''fail'') (run_checks rt example_app)) = 0"
    "length (filter (\<lambda>p. status p = ''warning'') (run_checks rt example_app)) = 0"
    by (simp_all only: count_status_map sa) simp_all
  have nb: "length (filter (\<lambda>p. status p = ''pass'') (run_checks rt ?late)) = 10"
    "length (filter (\<lambda>p. status p = ''fail'') (run_checks rt ?late)) = 3"
    "length (filter (\<lambda>p. status p = ''warning'') (run_checks rt ?late)) = 1"
    by (simp_all only: count_status_map sb) simp_all
  have A: "passedPoints (summary ?A) = 14 \<and> failedPoints (summary ?A) = 0 \<and>
     warningPoints (summary ?A) = 0 \<and> score (summary ?A) = 100 \<and> grade (summary ?A) = ''A''"
    using TA by (simp add: na)
  have B: "passedPoints (summary ?B) = 10 \<and> failedPoints (summary ?B) = 3 \<and>
     warningPoints (summary ?B) = 1 \<and> score (summary ?B) = 71 \<and> grade (summary ?B) = ''C''"
    using TB by (simp add: nb)
  from A B pa pb sa sb
  show "map status (points ?A) =
       [''pass'', ''pass'', ''pass'', ''pass'', ''pass'', ''pass'', ''pass'',
        ''pass'', ''pass'', ''pass'', ''pass'', ''pass'', ''pass'', ''pass''] \<and>
     passedPoints (summary ?A) = 14 \<and> failedPoints (summary ?A) = 0 \<and>
     warningPoints (summary ?A) = 0 \<and> score (summary ?A) = 100 \<and> grade (summary ?A) = ''A'' \<and>
     map status (points ?B) =
       [''fail'', ''pass'', ''pass'', ''pass'', ''pass'', ''pass'', ''fail'',
        ''pass'', ''pass'', ''fail'', ''pass'', ''warning'', ''pass'', ''pass''] \<and>
     passedPoints (summary ?B) = 10 \<and> failedPoints (summary ?B) = 3 \<and>
     warningPoints (summary ?B) = 1 \<and> score (summary ?B) = 71 \<and> grade (summary ?B) = ''C''"
    by simp
qed

section \<open>Resource curve: conservation of the target quantity\<close>

lemma add_activity_target:
  "weeklyTargetQty (add_activity ws (Some we) a tp) = weeklyTargetQty tp + target_share ws we a"
  by (simp add: add_activity_def target_share_def Let_def split: option.splits)

lemma fold_add_activity_target:
  "weeklyTargetQty (fold (add_activity ws (Some we)) xs tp) =
     weeklyTargetQty tp + sum_list (map (target_share ws we) xs)"
proof (induction xs arbitrary: tp)
  case Nil
  then show ?case by simp
next
  case (Cons a xs)
  from Cons.IH [of "add_activity ws (Some we) a tp"] show ?case
    by (simp add: add_activity_target)
qed

lemma add_activity_invalid: "add_activity ws None a tp = tp"
  by (simp add: add_activity_def split: option.splits)

lemma week_point_target:
  "TimeClip (c + weekInMs) = Some (c + weekInMs) \<Longrightarrow>
   weeklyTargetQty (week_point xs c) = sum_list (map (target_share c (c + weekInMs)) xs)"
  by (simp add: week_point_def fold_add_activity_target)

lemma positive_spanD:
  "positive_span a \<Longrightarrow> \<exists>s e. startDate a = Some s \<and> endDate a = Some e \<and> s < e"
  by (cases "startDate a"; cases "endDate a") (simp_all add: positive_span_def)

lemma span_in_rangeD:
  "span_in_range a \<Longrightarrow>
   \<exists>s e. startDate a = Some s \<and> endDate a = Some e \<and> - maxTime \<le> s \<and> e + weekInMs \<le> maxTime"
  by (cases "startDate a"; cases "endDate a") (simp_all add: span_in_range_def)

lemma overlap_split:
  fixes s e c w :: int
  assumes "s < e" "0 < w"
  shows "(if s \<le> c + w \<and> e \<ge> c then max 0 (min e (c + w) - max s c) else 0) + max 0 (e - max s (c + w))
       = max 0 (e - max s c)"
  using assms by (auto simp: max_def min_def)

lemma share_step:
  assumes "positive_span a"
  shows "target_share c (c + weekInMs) a + covered (c + weekInMs) a = covered c a"
proof -
  from positive_spanD [OF assms] obtain s e
    where d: "startDate a = Some s" "endDate a = Some e" and se: "s < e" by blast
  have w: "0 < weekInMs" by (simp add: weekInMs_def)
  let ?ov = "(if s \<le> c + weekInMs \<and> e \<ge> c then max 0 (min e (c + weekInMs) - max s c) else 0)"
  have ts: "target_share c (c + weekInMs) a = targetQty a * (real_of_int ?ov / real_of_int (e - s))"
    using d se by (simp add: target_share_def)
  have cv: "covered (c + weekInMs) a = targetQty a * (real_of_int (max 0 (e - max s (c + weekInMs))) / real_of_int (e - s))"
    "covered c a = targetQty a * (real_of_int (max 0 (e - max s c)) / real_of_int (e - s))"
    using d by (simp_all add: covered_def)
  have "real_of_int ?ov + real_of_int (max 0 (e - max s (c + weekInMs))) = real_of_int (max 0 (e - max s c))"
    using overlap_split [OF se w, of c] by (metis of_int_add)
  then show ?thesis
    unfolding ts cv by (metis add_divide_distrib distrib_left)
qed

lemma week_loop_unfold:
  "c \<le> pe \<Longrightarrow> week_loop xs (Some c) pe = week_point xs c # week_loop xs (TimeClip (c + weekInMs)) pe"
  "\<not> c \<le> pe \<Longrightarrow> week_loop xs (Some c) pe = []"
  "week_loop xs None pe = []"
  by (subst week_loop.simps, simp)+

lemma week_loop_target:
  assumes "\<forall>a \<in> set xs. positive_span a \<and> (\<exists>e. endDate a = Some e \<and> e \<le> pe)"
    and "pe + weekInMs \<le> maxTime" and "- maxTime \<le> c"
  shows "sum_list (map weeklyTargetQty (week_loop xs (Some c) pe)) = sum_list (map (covered c) xs)"
  using assms(3)
proof (induction "nat (pe - c + 1)" arbitrary: c rule: less_induct)
  case less
  show ?case
  proof (cases "c \<le> pe")
    case True
    have w: "0 < weekInMs" by (simp add: weekInMs_def)
    have clip: "TimeClip (c + weekInMs) = Some (c + weekInMs)"
      using True less.prems assms(2) w by (simp add: TimeClip_def)
    have "nat (pe - (c + weekInMs) + 1) < nat (pe - c + 1)"
      using True w by simp
    moreover have "- maxTime \<le> c + weekInMs" using less.prems w by simp
    ultimately have ih: "sum_list (map weeklyTargetQty (week_loop xs (Some (c + weekInMs)) pe)) =
        sum_list (map (covered (c + weekInMs)) xs)"
      by (rule less.hyps)
    have "sum_list (map weeklyTargetQty (week_loop xs (Some c) pe)) =
          sum_list (map (target_share c (c + weekInMs)) xs) + sum_list (map (covered (c + weekInMs)) xs)"
      by (simp add: week_loop_unfold(1) [OF True] clip week_point_target ih)
    also have "\<dots> = sum_list (map (\<lambda>a. target_share c (c + weekInMs) a + covered (c + weekInMs) a) xs)"
      by (simp add: sum_list_addf)
    also have "\<dots> = sum_list (map (covered c) xs)"
      using assms(1) by (intro arg_cong [where f = sum_list] map_cong refl) (simp add: share_step)
    finally show ?thesis .
  next
    case False
    have "covered c a = 0" if "a \<in> set xs" for a
    proof -
      from assms(1) that have p: "positive_span a" and "\<exists>e. endDate a = Some e \<and> e \<le> pe"
        by blast+
      then obtain e where e: "endDate a = Some e" "e \<le> pe" by blast
      from positive_spanD [OF p] obtain s where "startDate a = Some s" by blast
      with e False show ?thesis by (simp add: covered_def)
    qed
    then have "sum_list (map (covered c) xs) = 0"
      by (induction xs) auto
    with False show ?thesis by (simp add: week_loop_unfold(2))
  qed
qed

lemma fold_nan_min_Some:
  "fold nan_min ds d = Some m \<Longrightarrow>
   Some m \<in> set (d # ds) \<and> (\<forall>d' \<in> set (d # ds). \<exists>y. d' = Some y \<and> m \<le> y)"
proof (induction ds arbitrary: d)
  case Nil
  then show ?case by simp
next
  case (Cons d' ds)
  from Cons.prems have "fold nan_min ds (nan_min d' d) = Some m" by simp
  from Cons.IH [OF this] have mem: "Some m \<in> set (nan_min d' d # ds)"
    and low: "\<forall>x \<in> set (nan_min d' d # ds). \<exists>y. x = Some y \<and> m \<le> y" by blast+
  from low obtain x where x: "nan_min d' d = Some x" "m \<le> x" by auto
  then obtain u v where uv: "d' = Some u" "d = Some v" "x = min u v"
    by (cases d'; cases d) auto
  from mem x uv have "Some m \<in> set (d # d' # ds)" by (auto simp: min_def split: if_splits)
  moreover from low x uv have "\<forall>z \<in> set (d # d' # ds). \<exists>y. z = Some y \<and> m \<le> y" by auto
  ultimately show ?case by blast
qed

lemma fold_nan_max_Some:
  "fold nan_max ds d = Some m \<Longrightarrow>
   Some m \<in> set (d # ds) \<and> (\<forall>d' \<in> set (d # ds). \<exists>y. d' = Some y \<and> y \<le> m)"
proof (induction ds arbitrary: d)
  case Nil
  then show ?case by simp
next
  case (Cons d' ds)
  from Cons.prems have "fold nan_max ds (nan_max d' d) = Some m" by simp
  from Cons.IH [OF this] have mem: "Some m \<in> set (nan_max d' d # ds)"
    and up: "\<forall>x \<in> set (nan_max d' d # ds). \<exists>y. x = Some y \<and> y \<le> m" by blast+
  from up obtain x where x: "nan_max d' d = Some x" "x \<le> m" by auto
  then obtain u v where uv: "d' = Some u" "d = Some v" "x = max u v"
    by (cases d'; cases d) auto
  from mem x uv have "Some m \<in> set (d # d' # ds)" by (auto simp: max_def split: if_splits)
  moreover from up x uv have "\<forall>z \<in> set (d # d' # ds). \<exists>y. z = Some y \<and> y \<le> m" by auto
  ultimately show ?case by blast
qed

lemma Math_min_Some:
  "Math_min ds = Some m \<Longrightarrow> Some m \<in> set ds \<and> (\<forall>d \<in> set ds. \<exists>y. d = Some y \<and> m \<le> y)"
  by (cases ds) (auto simp: Math_min_def dest: fold_nan_min_Some)

lemma Math_max_Some:
  "Math_max ds = Some m \<Longrightarrow> Some m \<in> set ds \<and> (\<forall>d \<in> set ds. \<exists>y. d = Some y \<and> y \<le> m)"
  by (cases ds) (auto simp: Math_max_def dest: fold_nan_max_Some)

lemma fold_nan_min_valid:
  "d \<noteq> None \<Longrightarrow> \<forall>d' \<in> set ds. d' \<noteq> None \<Longrightarrow> fold nan_min ds d \<noteq> None"
  by (induction ds arbitrary: d) auto

lemma fold_nan_max_valid:
  "d \<noteq> None \<Longrightarrow> \<forall>d' \<in> set ds. d' \<noteq> None \<Longrightarrow> fold nan_max ds d \<noteq> None"
  by (induction ds arbitrary: d) auto

lemma Math_min_valid:
  "ds \<noteq> [] \<Longrightarrow> \<forall>d \<in> set ds. d \<noteq> None \<Longrightarrow> Math_min ds \<noteq> None"
  by (cases ds) (simp_all add: Math_min_def fold_nan_min_valid)

lemma Math_max_valid:
  "ds \<noteq> [] \<Longrightarrow> \<forall>d \<in> set ds. d \<noteq> None \<Longrightarrow> Math_max ds \<noteq> None"
  by (cases ds) (simp_all add: Math_max_def fold_nan_max_valid)

lemma covered_full:
  assumes "positive_span a" "startDate a = Some s" "c \<le> s"
  shows "covered c a = targetQty a"
proof -
  from positive_spanD [OF assms(1)] assms(2) obtain e where "endDate a = Some e" "s < e" by auto
  with assms show ?thesis by (simp add: covered_def max_def)
qed

lemma sum_list_insort_key:
  "sum_list (map g (insort_key k x xs)) = g x + sum_list (map (g :: 'a \<Rightarrow> real) xs)"
  by (induction xs) auto

lemma sum_list_sort_key:
  "sum_list (map g (sort_key k xs)) = sum_list (map (g :: 'a \<Rightarrow> real) xs)"
  by (induction xs) (simp_all add: sum_list_insort_key)

lemma sort_activityData_props:
  "set (sort_activityData xs) = set xs"
  "sum_list (map targetQty (sort_activityData xs)) = sum_list (map targetQty xs)"
  "(sort_activityData xs = []) = (xs = [])"
proof -
  show "set (sort_activityData xs) = set xs"
    by (simp add: sort_activityData_def)
  show "sum_list (map targetQty (sort_activityData xs)) = sum_list (map targetQty xs)"
    by (simp add: sort_activityData_def sum_list_sort_key)
  have "length (sort_activityData xs) = length xs"
    by (simp add: sort_activityData_def)
  then show "(sort_activityData xs = []) = (xs = [])"
    by (metis length_0_conv)
qed

lemma TimeClip_Some: "TimeClip t = Some u \<Longrightarrow> u = t \<and> - maxTime \<le> t \<and> t \<le> maxTime"
  by (auto simp: TimeClip_def split: if_splits)

lemma trunc_range:
  assumes "\<bar>r\<bar> \<le> real_of_int m"
  shows "- m \<le> trunc r \<and> trunc r \<le> m"
proof (cases "0 \<le> r")
  case True
  then have f0: "0 \<le> \<lfloor>r\<rfloor>" by simp
  from True assms have "r \<le> real_of_int m" by simp
  then have f1: "\<lfloor>r\<rfloor> \<le> m" by (simp add: floor_le_iff)
  from f0 f1 have "- m \<le> \<lfloor>r\<rfloor> \<and> \<lfloor>r\<rfloor> \<le> m" by linarith
  with True show ?thesis by (simp only: trunc_def if_True)
next
  case False
  then have f0: "\<lceil>r\<rceil> \<le> 0" by (simp add: ceiling_le_iff)
  from False assms have "real_of_int (- m) \<le> r" by simp
  then have f1: "- m \<le> \<lceil>r\<rceil>" by (simp only: le_ceiling_iff)
  from f0 f1 have "- m \<le> \<lceil>r\<rceil> \<and> \<lceil>r\<rceil> \<le> m" by linarith
  with False show ?thesis by (simp only: trunc_def if_False)
qed

lemma new_Date_range: "new_Date rt v = Some t \<Longrightarrow> - maxTime \<le> t \<and> t \<le> maxTime"
proof (cases v)
  case (JDate u)
  assume "new_Date rt v = Some t"
  with JDate show ?thesis by (auto dest: TimeClip_Some)
next
  case (JStr s)
  assume "new_Date rt v = Some t"
  with JStr show ?thesis by (auto dest: TimeClip_Some split: option.splits)
next
  case JUndefined
  assume "new_Date rt v = Some t"
  with JUndefined show ?thesis by simp
next
  case JNull
  assume "new_Date rt v = Some t"
  with JNull show ?thesis using trunc_range [of 0 maxTime]
    by (auto split: if_splits)
next
  case (JBool b)
  assume "new_Date rt v = Some t"
  with JBool show ?thesis using trunc_range [of "if b then 1 else 0" maxTime]
    by (auto split: if_splits)
next
  case (JNum r)
  assume "new_Date rt v = Some t"
  with JNum show ?thesis using trunc_range [of r maxTime]
    by (auto split: if_splits)
qed

lemma activity_entry_usable:
  assumes "usable_span rt rd asg" "week_after_end rt rd asg"
  shows "\<exists>d. activity_entry rt rd asg = [d] \<and> positive_span d \<and> span_in_range d \<and>
             targetQty d = convertToNumber rt (prop_of asg ''target_qty'')"
proof -
  from assms(1) obtain act where f: "find (\<lambda>a. strict_eq (prop_of a ''task_id'') (prop_of asg ''task_id''))
      (activities rd) = Some act"
    by (auto simp: usable_span_def split: option.splits)
  let ?sd = "js_or (prop_of act ''act_start_date'') (prop_of act ''early_start_date'')"
  let ?ed = "js_or (prop_of act ''act_end_date'') (prop_of act ''early_end_date'')"
  from assms(1) f obtain s e where tr: "truthy ?sd" "truthy ?ed"
    and dd: "new_Date rt ?sd = Some s" "new_Date rt ?ed = Some e" and se: "s < e"
    by (auto simp: usable_span_def Let_def split: option.splits)
  from assms(2) f dd have w: "e + weekInMs \<le> maxTime"
    by (simp add: week_after_end_def)
  from new_Date_range [OF dd(1)] have lo: "- maxTime \<le> s" by simp
  show ?thesis
    using f tr dd se w lo
    by (simp add: activity_entry_def Let_def positive_span_def span_in_range_def)
qed

lemma collect_usable:
  "\<forall>asg \<in> set asgs. usable_span rt rd asg \<and> week_after_end rt rd asg \<Longrightarrow>
   (\<forall>d \<in> set (collect_activityData rt rd asgs). positive_span d \<and> span_in_range d) \<and>
   length (collect_activityData rt rd asgs) = length asgs \<and>
   sum_list (map targetQty (collect_activityData rt rd asgs)) = target_total rt asgs"
proof (induction asgs)
  case Nil
  then show ?case by (simp add: collect_activityData_def target_total_def)
next
  case (Cons asg asgs)
  from Cons.prems have "usable_span rt rd asg" "week_after_end rt rd asg" by simp_all
  from activity_entry_usable [OF this] obtain d where d: "activity_entry rt rd asg = [d]"
    "positive_span d" "span_in_range d"
    "targetQty d = convertToNumber rt (prop_of asg ''target_qty'')" by blast
  from Cons.prems have "\<forall>asg \<in> set asgs. usable_span rt rd asg \<and> week_after_end rt rd asg" by simp
  from Cons.IH [OF this] d show ?case
    by (simp add: collect_activityData_def target_total_def)
qed

text \<open>
  Claim C1, as the code has it. For every resource id: when every assignment of the resource
  has a usable span (its activity is found, with a valid start before a valid end) and the
  end of its activity is at least seven days before the last time value a date can hold,
  the values \<open>weeklyTargetQty\<close> of all the weeks of the curve add up to the sum of the
  target quantities of the assignments. Numbers are exact: each activity's weekly shares
  add up to its whole quantity.
\<close>

theorem resource_curve_conservation:
  assumes "\<forall>asg \<in> set (getResourceAssignmentsByResource rd rid).
             usable_span rt rd asg \<and> week_after_end rt rd asg"
  shows "sum_list (map weeklyTargetQty (timeBasedData (getResourceCurve rt rd rid))) =
         sum_list (map (\<lambda>asg. convertToNumber rt (prop_of asg ''target_qty''))
           (getResourceAssignmentsByResource rd rid))"
proof -
  let ?asgs = "getResourceAssignmentsByResource rd rid"
  let ?raw = "collect_activityData rt rd ?asgs"
  let ?xs = "sort_activityData ?raw"
  from collect_usable [OF assms]
  have pos: "\<forall>d \<in> set ?raw. positive_span d \<and> span_in_range d" and len: "length ?raw = length ?asgs"
    and tot: "sum_list (map targetQty ?raw) = target_total rt ?asgs"
    by blast+
  show ?thesis
  proof (cases "?raw = []")
    case True
    with len have "?asgs = []" by simp
    with True show ?thesis
      by (simp add: getResourceCurve_def Let_def sort_activityData_props)
  next
    case False
    then have ne: "?xs \<noteq> []" by (simp add: sort_activityData_props)
    from pos have pos': "\<forall>d \<in> set ?xs. positive_span d \<and> span_in_range d"
      by (simp add: sort_activityData_props)
    then have "\<forall>d \<in> set (map startDate ?xs). d \<noteq> None" "\<forall>d \<in> set (map endDate ?xs). d \<noteq> None"
      by (auto dest: positive_spanD)
    with ne obtain ps pe where ps: "Math_min (map startDate ?xs) = Some ps"
      and pe: "Math_max (map endDate ?xs) = Some pe"
      using Math_min_valid [of "map startDate ?xs"] Math_max_valid [of "map endDate ?xs"] by auto
    from Math_min_Some [OF ps] obtain a0 where a0: "a0 \<in> set ?xs" "startDate a0 = Some ps"
      by auto
    from Math_max_Some [OF pe] obtain a1 where a1: "a1 \<in> set ?xs" "endDate a1 = Some pe"
      by auto
    from pos' a0 span_in_rangeD [of a0] have lo: "- maxTime \<le> ps" by auto
    from pos' a1 span_in_rangeD [of a1] have hi: "pe + weekInMs \<le> maxTime" by auto
    from pos' a0 positive_spanD [of a0] span_in_rangeD [of a0]
    have "ps \<le> maxTime" by (auto simp: weekInMs_def)
    with lo have cps: "TimeClip ps = Some ps" by (simp add: TimeClip_def)
    from pos' a1 positive_spanD [of a1] span_in_rangeD [of a1]
    have "- maxTime \<le> pe" by auto
    with hi have cpe: "TimeClip pe = Some pe" by (simp add: TimeClip_def weekInMs_def)
    have tbd: "timeBasedData (getResourceCurve rt rd rid) = week_loop ?xs (Some ps) pe"
      using ne ps pe cps cpe by (simp add: getResourceCurve_def Let_def Date_of_time_def)
    from Math_max_Some [OF pe] pos'
    have "\<forall>a \<in> set ?xs. positive_span a \<and> (\<exists>e. endDate a = Some e \<and> e \<le> pe)" by auto
    from week_loop_target [OF this hi lo]
    have "sum_list (map weeklyTargetQty (week_loop ?xs (Some ps) pe)) = sum_list (map (covered ps) ?xs)" .
    also have "\<dots> = sum_list (map targetQty ?xs)"
    proof (intro arg_cong [where f = sum_list] map_cong refl)
      fix a assume a: "a \<in> set ?xs"
      with Math_min_Some [OF ps] obtain s where "startDate a = Some s" "ps \<le> s" by auto
      with pos' a show "covered ps a = targetQty a" by (simp add: covered_full)
    qed
    also have "\<dots> = sum_list (map (\<lambda>asg. convertToNumber rt (prop_of asg ''target_qty'')) ?asgs)"
      by (simp add: sort_activityData_props tot target_total_def)
    finally show ?thesis by (simp add: tbd)
  qed
qed

lemma example_app_assignments:
  "getResourceAssignmentsByResource (currentReader example_app) (JStr ''R1'') = example_assignments"
  by (simp add: getResourceAssignmentsByResource_def example_app_def example_assignments_def
      example_asg_props)

lemma example_app_usable:
  "\<forall>asg \<in> set example_assignments.
     usable_span rt (currentReader example_app) asg \<and> week_after_end rt (currentReader example_app) asg"
  by (simp add: example_assignments_def usable_span_def week_after_end_def example_app_def
      example_schedule_def example_asg_props example_props js_or_def TimeClip_def maxTime_def
      weekInMs_def)

theorem resource_curve_conservation_witness:
  "\<forall>rt. getResourceAssignmentsByResource (currentReader example_app) (JStr ''R1'') = example_assignments \<and>
     sum_list (map weeklyTargetQty
       (timeBasedData (getResourceCurve rt (currentReader example_app) (JStr ''R1'')))) = 50"
proof
  fix rt
  have h: "\<forall>asg \<in> set (getResourceAssignmentsByResource (currentReader example_app) (JStr ''R1'')).
             usable_span rt (currentReader example_app) asg \<and>
             week_after_end rt (currentReader example_app) asg"
    using example_app_usable [of rt] by (simp only: example_app_assignments)
  have t: "sum_list (map (\<lambda>asg. convertToNumber rt (prop_of asg ''target_qty'')) example_assignments) = 50"
    by (simp add: example_assignments_def example_asg_props convertToNumber_def)
  from resource_curve_conservation [OF h] t example_app_assignments
  show "getResourceAssignmentsByResource (currentReader example_app) (JStr ''R1'') = example_assignments \<and>
     sum_list (map weeklyTargetQty
       (timeBasedData (getResourceCurve rt (currentReader example_app) (JStr ''R1'')))) = 50"
    by simp
qed

lemma Math_single: "Math_min [d] = d" "Math_max [d] = d"
  by (simp_all add: Math_min_def Math_max_def)

lemma single_entry_curve:
  assumes "getResourceAssignmentsByResource rd rid = [asg]"
    and "activity_entry rt rd asg = [d]"
    and "startDate d = Some s" and "endDate d = Some e"
    and "- maxTime \<le> s" and "s \<le> maxTime" and "- maxTime \<le> e" and "e \<le> maxTime"
  shows "timeBasedData (getResourceCurve rt rd rid) = week_loop [d] (Some s) e"
proof -
  have "sort_activityData (collect_activityData rt rd [asg]) = [d]"
    by (simp add: collect_activityData_def assms(2) sort_activityData_def)
  moreover from assms(5-8) have "TimeClip s = Some s" "TimeClip e = Some e"
    by (simp_all add: TimeClip_def abs_le_iff)
  ultimately show ?thesis
    by (simp add: getResourceCurve_def Let_def assms(1,3,4) Math_single Date_of_time_def)
qed

lemma lines_far: "content_lines example_text_far =
  [''%T'' @ [tab] @ ''TASK'',
     ''%F'' @ [tab] @ ''task_id'' @ [tab] @ ''early_start_date'' @ [tab] @ ''early_end_date'',
     ''%R'' @ [tab] @ ''T9'' @ [tab] @ ''+275760-09-10T00:00:00.000Z'' @ [tab] @
       ''+275760-09-13T00:00:00.000Z'',
     ''%T'' @ [tab] @ ''TASKRSRC'',
     ''%F'' @ [tab] @ ''task_id'' @ [tab] @ ''rsrc_id'' @ [tab] @ ''target_qty'',
     ''%R'' @ [tab] @ ''T9'' @ [tab] @ ''R1'' @ [tab] @ ''70'']"
  by (simp add: example_text_far_def content_lines_def trim_def tab_def newline_def js_whitespace_def)

lemma parsed_far:
  "parseContent example_text_far = Inr
     [''TASK'' \<mapsto> [build_record Map.empty [''task_id'', ''early_start_date'', ''early_end_date'']
                          [''T9'', ''+275760-09-10T00:00:00.000Z'', ''+275760-09-13T00:00:00.000Z'']],
      ''TASKRSRC'' \<mapsto> [build_record Map.empty [''task_id'', ''rsrc_id'', ''target_qty'']
                          [''T9'', ''R1'', ''70'']]]"
  by (simp add: parseContent_def lines_far process_line_def startsWith_def substring_def tab_def)

lemma reader_far:
  "example_reader_far =
     new_Reader\<lparr>activities := [example_task_far], activityResources := [example_assignment_far]\<rparr>"
  by (simp add: example_reader_far_def Reader_parseContent_def parsed_far reader_of_def
      buildCollections_def build_collection_def new_Reader_def example_task_far_def
      example_assignment_far_def)

lemma task_far_props:
  "prop_of example_task_far ''task_id'' = JStr ''T9''"
  "prop_of example_task_far ''act_start_date'' = JUndefined"
  "prop_of example_task_far ''act_end_date'' = JUndefined"
  "prop_of example_task_far ''early_start_date'' = JDate 8639999740800000"
  "prop_of example_task_far ''early_end_date'' = JDate 8640000000000000"
  by (simp_all add: example_task_far_def convertTypes_def SCHEMAS_TASK_def set_prop_def js_or_def
      prop_of_def convertToDate_def example_runtime_def example_dates_def TimeClip_def maxTime_def)

lemma assignment_far_props:
  "prop_of example_assignment_far ''task_id'' = JStr ''T9''"
  "prop_of example_assignment_far ''rsrc_id'' = JStr ''R1''"
  "prop_of example_assignment_far ''target_qty'' = JNum 70"
  by (simp_all add: example_assignment_far_def convertTypes_def SCHEMAS_TASKRSRC_def set_prop_def
      js_or_def prop_of_def convertToNumber_def example_runtime_def digits_number_def digit_of_def)

lemma far_assignments:
  "getResourceAssignmentsByResource example_reader_far (JStr ''R1'') = [example_assignment_far]"
  by (simp add: reader_far getResourceAssignmentsByResource_def assignment_far_props)

text \<open>
  The claim as stated fails on the example text whose task lies in the last three days of
  the range of time values. Its assignment has a usable span and a target quantity of 70,
  but the end of the first week is past the range and is an invalid date, so the one bucket
  receives nothing and the weekly quantities add up to 0.
\<close>

theorem far_curve_counterexample:
  "list_all (usable_span example_runtime example_reader_far)
     (getResourceAssignmentsByResource example_reader_far (JStr ''R1'')) \<and>
   target_total example_runtime (getResourceAssignmentsByResource example_reader_far (JStr ''R1'')) = 70 \<and>
   map weekEnd (timeBasedData (getResourceCurve example_runtime example_reader_far (JStr ''R1''))) = [None] \<and>
   sum_list (map weeklyTargetQty
     (timeBasedData (getResourceCurve example_runtime example_reader_far (JStr ''R1'')))) = 0"
proof -
  have f: "find (\<lambda>a. prop_of a ''task_id'' = JStr ''T9'') (activities example_reader_far) =
      Some example_task_far"
    by (simp add: reader_far task_far_props)
  have u: "usable_span example_runtime example_reader_far example_assignment_far"
    using f by (simp add: usable_span_def assignment_far_props task_far_props js_or_def
        TimeClip_def maxTime_def)
  have tt: "target_total example_runtime [example_assignment_far] = 70"
    by (simp add: target_total_def assignment_far_props convertToNumber_def)
  obtain d where d: "activity_entry example_runtime example_reader_far example_assignment_far = [d]"
    and sd: "startDate d = Some 8639999740800000" and ed: "endDate d = Some 8640000000000000"
    using f
    by (simp add: activity_entry_def task_far_props assignment_far_props js_or_def
        Let_def TimeClip_def maxTime_def)
  have tbd: "timeBasedData (getResourceCurve example_runtime example_reader_far (JStr ''R1'')) =
      week_loop [d] (Some 8639999740800000) 8640000000000000"
    by (rule single_entry_curve [OF far_assignments d sd ed]) (simp_all add: maxTime_def)
  have clip: "TimeClip (8639999740800000 + weekInMs) = None"
    by (simp add: TimeClip_def maxTime_def weekInMs_def)
  have loop: "week_loop [d] (Some 8639999740800000) 8640000000000000 = [week_point [d] 8639999740800000]"
    using week_loop_unfold(1) [of 8639999740800000 8640000000000000 "[d]"]
    by (simp add: clip week_loop_unfold(3))
  have wp: "weekEnd (week_point [d] 8639999740800000) = None"
    "weeklyTargetQty (week_point [d] 8639999740800000) = 0"
    by (simp_all add: week_point_def clip add_activity_invalid)
  show ?thesis
    by (simp add: far_assignments u tt tbd loop wp)
qed

section \<open>Resource curve: an activity of fourteen days\<close>

lemma week_loop_two_weeks:
  assumes "- maxTime \<le> s" "s + 1209600000 \<le> maxTime"
  shows "week_loop xs (Some s) (s + 1209600000) =
     [week_point xs s, week_point xs (s + 604800000), week_point xs (s + 1209600000)]"
proof -
  have w: "s + weekInMs = s + 604800000" "s + 604800000 + weekInMs = s + 1209600000"
    "s + 1209600000 + weekInMs = s + 1814400000"
    by (simp_all add: weekInMs_def)
  have c: "TimeClip (s + 604800000) = Some (s + 604800000)"
    "TimeClip (s + 1209600000) = Some (s + 1209600000)"
    using assms by (simp_all add: TimeClip_def abs_le_iff)
  have l4: "week_loop xs (TimeClip (s + 1814400000)) (s + 1209600000) = []"
    by (cases "TimeClip (s + 1814400000)")
       (auto simp: week_loop_unfold dest: TimeClip_Some)
  have "week_loop xs (Some (s + 1209600000)) (s + 1209600000) =
      week_point xs (s + 1209600000) # week_loop xs (TimeClip (s + 1209600000 + weekInMs)) (s + 1209600000)"
    by (rule week_loop_unfold(1)) simp
  then have l3: "week_loop xs (Some (s + 1209600000)) (s + 1209600000) = [week_point xs (s + 1209600000)]"
    by (simp only: w l4)
  have "week_loop xs (Some (s + 604800000)) (s + 1209600000) =
      week_point xs (s + 604800000) # week_loop xs (TimeClip (s + 604800000 + weekInMs)) (s + 1209600000)"
    by (rule week_loop_unfold(1)) simp
  then have l2: "week_loop xs (Some (s + 604800000)) (s + 1209600000) =
      [week_point xs (s + 604800000), week_point xs (s + 1209600000)]"
    by (simp only: w c l3)
  have "week_loop xs (Some s) (s + 1209600000) =
      week_point xs s # week_loop xs (TimeClip (s + weekInMs)) (s + 1209600000)"
    by (rule week_loop_unfold(1)) simp
  then show ?thesis
    by (simp only: w c l2)
qed

lemma add_activity_frame:
  "date (add_activity ws we a tp) = date tp" "weekEnd (add_activity ws we a tp) = weekEnd tp"
  by (simp_all add: add_activity_def Let_def split: option.splits)

lemma fold_add_activity_frame:
  "date (fold (add_activity ws we) xs tp) = date tp \<and>
   weekEnd (fold (add_activity ws we) xs tp) = weekEnd tp"
  by (induction xs arbitrary: tp) (simp_all add: add_activity_frame)

lemma week_point_frame:
  "date (week_point xs c) = c" "weekEnd (week_point xs c) = TimeClip (c + weekInMs)"
  by (simp_all add: week_point_def fold_add_activity_frame)

lemma week_point_two_weeks:
  assumes "startDate d = Some s" "endDate d = Some (s + 1209600000)"
    and "- maxTime \<le> s" "s + 1209600000 \<le> maxTime"
  shows "weeklyTargetQty (week_point [d] s) = targetQty d * (1 / 2)"
    "weeklyTargetQty (week_point [d] (s + 604800000)) = targetQty d * (1 / 2)"
    "weeklyTargetQty (week_point [d] (s + 1209600000)) = 0"
    "map overlapRatio (activeActivities (week_point [d] s)) = [1 / 2]"
    "map overlapRatio (activeActivities (week_point [d] (s + 604800000))) = [1 / 2]"
    "s + 1814400000 \<le> maxTime \<Longrightarrow>
       map overlapRatio (activeActivities (week_point [d] (s + 1209600000))) = [0]"
    "maxTime < s + 1814400000 \<Longrightarrow>
       map overlapRatio (activeActivities (week_point [d] (s + 1209600000))) = []"
proof -
  have c: "TimeClip (s + 604800000) = Some (s + 604800000)"
    "TimeClip (s + 1209600000) = Some (s + 1209600000)"
    using assms by (simp_all add: TimeClip_def abs_le_iff)
  have w: "s + weekInMs = s + 604800000" "s + 604800000 + weekInMs = s + 1209600000"
    "s + 1209600000 + weekInMs = s + 1814400000"
    by (simp_all add: weekInMs_def)
  show "weeklyTargetQty (week_point [d] s) = targetQty d * (1 / 2)"
    "map overlapRatio (activeActivities (week_point [d] s)) = [1 / 2]"
    by (simp_all add: week_point_def add_activity_def assms(1,2) Let_def w c)
  show "weeklyTargetQty (week_point [d] (s + 604800000)) = targetQty d * (1 / 2)"
    "map overlapRatio (activeActivities (week_point [d] (s + 604800000))) = [1 / 2]"
    by (simp_all add: week_point_def add_activity_def assms(1,2) Let_def w c)
  show "weeklyTargetQty (week_point [d] (s + 1209600000)) = 0"
    by (cases "TimeClip (s + 1814400000)")
       (auto simp: week_point_def add_activity_def assms(1,2) Let_def w dest: TimeClip_Some)
  show "map overlapRatio (activeActivities (week_point [d] (s + 1209600000))) = [0]"
    if "s + 1814400000 \<le> maxTime"
  proof -
    from that assms(3) have "TimeClip (s + 1814400000) = Some (s + 1814400000)"
      by (simp add: TimeClip_def abs_le_iff)
    then show ?thesis
      by (simp add: week_point_def add_activity_def assms(1,2) Let_def w)
  qed
  show "map overlapRatio (activeActivities (week_point [d] (s + 1209600000))) = []"
    if "maxTime < s + 1814400000"
  proof -
    from that have "TimeClip (s + 1814400000) = None"
      by (simp add: TimeClip_def abs_le_iff)
    then show ?thesis
      by (simp add: week_point_def add_activity_invalid w)
  qed
qed

lemma example14_assignments:
  "getResourceAssignmentsByResource example_reader14 (JStr ''R1'') = [example_assignment ''T1'' ''R1'' 70]"
  by (simp add: getResourceAssignmentsByResource_def example_reader14_def example_asg_props)

lemma example14_find:
  "find (\<lambda>a. strict_eq (prop_of a ''task_id'') (prop_of (example_assignment ''T1'' ''R1'' 70) ''task_id''))
     (activities example_reader14) = Some (example_activity ''T1'' 80 0 0 1209600000)"
  by (simp add: example_reader14_def example_asg_props example_props)

lemma example_edge_assignments:
  "getResourceAssignmentsByResource example_reader_edge (JStr ''R1'') = [example_assignment ''T1'' ''R1'' 70]"
  by (simp add: getResourceAssignmentsByResource_def example_reader_edge_def example_asg_props)

lemma example_edge_find:
  "find (\<lambda>a. strict_eq (prop_of a ''task_id'') (prop_of (example_assignment ''T1'' ''R1'' 70) ''task_id''))
     (activities example_reader_edge) =
     Some (example_activity ''T1'' 80 0 8639998790400000 8640000000000000)"
  by (simp add: example_reader_edge_def example_asg_props example_props)

text \<open>
  Claim C5, as the code has it. A resource with exactly one assignment of target quantity
  70, whose activity starts at the valid date \<open>s\<close> and ends at the valid date fourteen
  days later, gets three weekly buckets, in chronological order, one per step of seven days
  from \<open>s\<close> up to and including the window end \<open>s\<close> + 14 days. Their target quantities
  are 35, 35 and 0. The first two hold the activity with overlap ratio 1/2. The bucket that
  starts at the window end holds it with ratio 0 when its own end, \<open>s\<close> + 21 days, is
  a valid date; when that end is past the range of time values it is an invalid date and
  the bucket holds no activity.
\<close>

theorem fourteen_day_buckets:
  assumes "getResourceAssignmentsByResource rd rid = [asg]"
    and "find (\<lambda>a. strict_eq (prop_of a ''task_id'') (prop_of asg ''task_id'')) (activities rd) = Some act"
    and "js_or (prop_of act ''act_start_date'') (prop_of act ''early_start_date'') = JDate s"
    and "js_or (prop_of act ''act_end_date'') (prop_of act ''early_end_date'') = JDate (s + 14 * 86400000)"
    and "- maxTime \<le> s" and "s + 14 * 86400000 \<le> maxTime"
    and "convertToNumber rt (prop_of asg ''target_qty'') = 70"
  shows "map date (timeBasedData (getResourceCurve rt rd rid)) =
           [s, s + 7 * 86400000, s + 14 * 86400000]
       \<and> map weeklyTargetQty (timeBasedData (getResourceCurve rt rd rid)) = [35, 35, 0]
       \<and> (s + 21 * 86400000 \<le> maxTime \<longrightarrow>
            map weekEnd (timeBasedData (getResourceCurve rt rd rid)) =
              [Some (s + 7 * 86400000), Some (s + 14 * 86400000), Some (s + 21 * 86400000)] \<and>
            map (\<lambda>tp. map overlapRatio (activeActivities tp))
              (timeBasedData (getResourceCurve rt rd rid)) = [[1 / 2], [1 / 2], [0]])
       \<and> (maxTime < s + 21 * 86400000 \<longrightarrow>
            map weekEnd (timeBasedData (getResourceCurve rt rd rid)) =
              [Some (s + 7 * 86400000), Some (s + 14 * 86400000), None] \<and>
            map (\<lambda>tp. map overlapRatio (activeActivities tp))
              (timeBasedData (getResourceCurve rt rd rid)) = [[1 / 2], [1 / 2], []])"
proof -
  from assms(5,6) have r: "- maxTime \<le> s" "s + 1209600000 \<le> maxTime" by simp_all
  then have c0: "TimeClip s = Some s" "TimeClip (s + 1209600000) = Some (s + 1209600000)"
    "TimeClip (s + 604800000) = Some (s + 604800000)"
    by (simp_all add: TimeClip_def abs_le_iff)
  obtain d where d: "activity_entry rt rd asg = [d]" and sd: "startDate d = Some s"
    and ed: "endDate d = Some (s + 1209600000)" and q: "targetQty d = 70"
    using assms(2-4,7) c0 by (simp add: activity_entry_def Let_def)
  have tbd: "timeBasedData (getResourceCurve rt rd rid) =
     [week_point [d] s, week_point [d] (s + 604800000), week_point [d] (s + 1209600000)]"
    using single_entry_curve [OF assms(1) d sd ed] r week_loop_two_weeks [OF r, of "[d]"]
    by simp
  note wp = week_point_two_weeks [OF sd ed r]
  have wk: "s + weekInMs = s + 604800000" "s + 604800000 + weekInMs = s + 1209600000"
    "s + 1209600000 + weekInMs = s + 1814400000"
    by (simp_all add: weekInMs_def)
  have 1: "map date (timeBasedData (getResourceCurve rt rd rid)) =
           [s, s + 7 * 86400000, s + 14 * 86400000]"
    by (simp add: tbd week_point_frame(1))
  have 2: "map weeklyTargetQty (timeBasedData (getResourceCurve rt rd rid)) = [35, 35, 0]"
    by (simp add: tbd wp(1,2,3) q)
  have we: "map weekEnd (timeBasedData (getResourceCurve rt rd rid)) =
      [Some (s + 604800000), Some (s + 1209600000), TimeClip (s + 1814400000)]"
    by (simp only: tbd list.map week_point_frame(2) wk c0)
  have 3: "map weekEnd (timeBasedData (getResourceCurve rt rd rid)) =
              [Some (s + 7 * 86400000), Some (s + 14 * 86400000), Some (s + 21 * 86400000)] \<and>
            map (\<lambda>tp. map overlapRatio (activeActivities tp))
              (timeBasedData (getResourceCurve rt rd rid)) = [[1 / 2], [1 / 2], [0]]"
    if h: "s + 21 * 86400000 \<le> maxTime"
  proof -
    from h r have "TimeClip (s + 1814400000) = Some (s + 1814400000)"
      by (simp add: TimeClip_def abs_le_iff)
    with h we wp(4,5,6) show ?thesis by (simp add: tbd)
  qed
  have 4: "map weekEnd (timeBasedData (getResourceCurve rt rd rid)) =
              [Some (s + 7 * 86400000), Some (s + 14 * 86400000), None] \<and>
            map (\<lambda>tp. map overlapRatio (activeActivities tp))
              (timeBasedData (getResourceCurve rt rd rid)) = [[1 / 2], [1 / 2], []]"
    if h: "maxTime < s + 21 * 86400000"
  proof -
    from h have "TimeClip (s + 1814400000) = None"
      by (simp add: TimeClip_def abs_le_iff)
    with h we wp(4,5,7) show ?thesis by (simp add: tbd)
  qed
  from 1 2 3 4 show ?thesis by blast
qed

theorem fourteen_day_buckets_witness:
  "\<forall>rt. map date (timeBasedData (getResourceCurve rt example_reader14 (JStr ''R1''))) =
           [0, 604800000, 1209600000]
       \<and> map weeklyTargetQty (timeBasedData (getResourceCurve rt example_reader14 (JStr ''R1''))) =
           [35, 35, 0]
       \<and> map weekEnd (timeBasedData (getResourceCurve rt example_reader14 (JStr ''R1''))) =
           [Some 604800000, Some 1209600000, Some 1814400000]
       \<and> map (\<lambda>tp. map overlapRatio (activeActivities tp))
            (timeBasedData (getResourceCurve rt example_reader14 (JStr ''R1''))) =
           [[1 / 2], [1 / 2], [0]]
       \<and> map date (timeBasedData (getResourceCurve rt example_reader_edge (JStr ''R1''))) =
           [8639998790400000, 8639999395200000, 8640000000000000]
       \<and> map weeklyTargetQty (timeBasedData (getResourceCurve rt example_reader_edge (JStr ''R1''))) =
           [35, 35, 0]
       \<and> map weekEnd (timeBasedData (getResourceCurve rt example_reader_edge (JStr ''R1''))) =
           [Some 8639999395200000, Some 8640000000000000, None]
       \<and> map (\<lambda>tp. map overlapRatio (activeActivities tp))
            (timeBasedData (getResourceCurve rt example_reader_edge (JStr ''R1''))) =
           [[1 / 2], [1 / 2], []]"
proof
  fix rt
  let ?a = "example_activity ''T1'' 80 0 0 1209600000"
  let ?b = "example_activity ''T1'' 80 0 8639998790400000 8640000000000000"
  have s: "js_or (prop_of ?a ''act_start_date'') (prop_of ?a ''early_start_date'') = JDate 0"
    by (simp add: example_props js_or_def)
  have e: "js_or (prop_of ?a ''act_end_date'') (prop_of ?a ''early_end_date'') = JDate (0 + 14 * 86400000)"
    by (simp add: example_props js_or_def)
  have s': "js_or (prop_of ?b ''act_start_date'') (prop_of ?b ''early_start_date'') =
      JDate 8639998790400000"
    by (simp add: example_props js_or_def)
  have e': "js_or (prop_of ?b ''act_end_date'') (prop_of ?b ''early_end_date'') =
      JDate (8639998790400000 + 14 * 86400000)"
    by (simp add: example_props js_or_def)
  have q: "convertToNumber rt (prop_of (example_assignment ''T1'' ''R1'' 70) ''target_qty'') = 70"
    by (simp add: example_asg_props convertToNumber_def)
  have r: "- maxTime \<le> 0" "0 + 14 * 86400000 \<le> maxTime" "0 + 21 * 86400000 \<le> maxTime"
    by (simp_all add: maxTime_def)
  have r': "- maxTime \<le> 8639998790400000" "8639998790400000 + 14 * 86400000 \<le> maxTime"
    "maxTime < 8639998790400000 + 21 * 86400000"
    by (simp_all add: maxTime_def)
  note A = fourteen_day_buckets [OF example14_assignments example14_find s e r(1,2) q]
  note B = fourteen_day_buckets [OF example_edge_assignments example_edge_find s' e' r'(1,2) q]
  from A r(3) have A': "map date (timeBasedData (getResourceCurve rt example_reader14 (JStr ''R1''))) =
           [0, 604800000, 1209600000]
       \<and> map weeklyTargetQty (timeBasedData (getResourceCurve rt example_reader14 (JStr ''R1''))) =
           [35, 35, 0]
       \<and> map weekEnd (timeBasedData (getResourceCurve rt example_reader14 (JStr ''R1''))) =
           [Some 604800000, Some 1209600000, Some 1814400000]
       \<and> map (\<lambda>tp. map overlapRatio (activeActivities tp))
            (timeBasedData (getResourceCurve rt example_reader14 (JStr ''R1''))) =
           [[1 / 2], [1 / 2], [0]]"
    by simp
  from B r'(3) have B': "map date (timeBasedData (getResourceCurve rt example_reader_edge (JStr ''R1''))) =
           [8639998790400000, 8639999395200000, 8640000000000000]
       \<and> map weeklyTargetQty (timeBasedData (getResourceCurve rt example_reader_edge (JStr ''R1''))) =
           [35, 35, 0]
       \<and> map weekEnd (timeBasedData (getResourceCurve rt example_reader_edge (JStr ''R1''))) =
           [Some 8639999395200000, Some 8640000000000000, None]
       \<and> map (\<lambda>tp. map overlapRatio (activeActivities tp))
            (timeBasedData (getResourceCurve rt example_reader_edge (JStr ''R1''))) =
           [[1 / 2], [1 / 2], []]"
    by simp
  from A' B' show "map date (timeBasedData (getResourceCurve rt example_reader14 (JStr ''R1''))) =
           [0, 604800000, 1209600000]
       \<and> map weeklyTargetQty (timeBasedData (getResourceCurve rt example_reader14 (JStr ''R1''))) =
           [35, 35, 0]
       \<and> map weekEnd (timeBasedData (getResourceCurve rt example_reader14 (JStr ''R1''))) =
           [Some 604800000, Some 1209600000, Some 1814400000]
       \<and> map (\<lambda>tp. map overlapRatio (activeActivities tp))
            (timeBasedData (getResourceCurve rt example_reader14 (JStr ''R1''))) =
           [[1 / 2], [1 / 2], [0]]
       \<and> map date (timeBasedData (getResourceCurve rt example_reader_edge (JStr ''R1''))) =
           [8639998790400000, 8639999395200000, 8640000000000000]
       \<and> map weeklyTargetQty (timeBasedData (getResourceCurve rt example_reader_edge (JStr ''R1''))) =
           [35, 35, 0]
       \<and> map weekEnd (timeBasedData (getResourceCurve rt example_reader_edge (JStr ''R1''))) =
           [Some 8639999395200000, Some 8640000000000000, None]
       \<and> map (\<lambda>tp. map overlapRatio (activeActivities tp))
            (timeBasedData (getResourceCurve rt example_reader_edge (JStr ''R1''))) =
           [[1 / 2], [1 / 2], []]"
    by blast
qed

lemma lines14: "content_lines example_text14 =
  [''%T'' @ [tab] @ ''TASK'',
     ''%F'' @ [tab] @ ''task_id'' @ [tab] @ ''early_start_date'' @ [tab] @ ''early_end_date'',
     ''%R'' @ [tab] @ ''T1'' @ [tab] @ ''1970-01-01'' @ [tab] @ ''1970-01-15'',
     ''%T'' @ [tab] @ ''TASKRSRC'',
     ''%F'' @ [tab] @ ''task_id'' @ [tab] @ ''rsrc_id'' @ [tab] @ ''target_qty'',
     ''%R'' @ [tab] @ ''T1'' @ [tab] @ ''R1'' @ [tab] @ ''70'']"
  by (simp add: example_text14_def content_lines_def trim_def tab_def newline_def js_whitespace_def)

lemma parsed14:
  "parseContent example_text14 = Inr
     [''TASK'' \<mapsto> [build_record Map.empty [''task_id'', ''early_start_date'', ''early_end_date'']
                          [''T1'', ''1970-01-01'', ''1970-01-15'']],
      ''TASKRSRC'' \<mapsto> [build_record Map.empty [''task_id'', ''rsrc_id'', ''target_qty'']
                          [''T1'', ''R1'', ''70'']]]"
  by (simp add: parseContent_def lines14 process_line_def startsWith_def substring_def tab_def)

lemma reader14:
  "reader_of (Reader_parseContent example_runtime new_Reader example_text14) =
     new_Reader\<lparr>activities := [example_task14], activityResources := [example_assignment14]\<rparr>"
  by (simp add: Reader_parseContent_def parsed14 reader_of_def buildCollections_def
      build_collection_def new_Reader_def example_task14_def example_assignment14_def)

lemma task14_props:
  "prop_of example_task14 ''task_id'' = JStr ''T1''"
  "prop_of example_task14 ''act_start_date'' = JUndefined"
  "prop_of example_task14 ''act_end_date'' = JUndefined"
  "prop_of example_task14 ''early_start_date'' = JDate 0"
  "prop_of example_task14 ''early_end_date'' = JDate 1209600000"
  by (simp_all add: example_task14_def convertTypes_def SCHEMAS_TASK_def set_prop_def js_or_def
      prop_of_def convertToDate_def example_runtime_def example_dates_def TimeClip_def maxTime_def)

lemma assignment14_props:
  "prop_of example_assignment14 ''task_id'' = JStr ''T1''"
  "prop_of example_assignment14 ''rsrc_id'' = JStr ''R1''"
  "prop_of example_assignment14 ''target_qty'' = JNum 70"
  by (simp_all add: example_assignment14_def convertTypes_def SCHEMAS_TASKRSRC_def set_prop_def
      js_or_def prop_of_def convertToNumber_def example_runtime_def digits_number_def digit_of_def)

text \<open>
  The claim as stated, two buckets, fails on the example text: read and converted, its one
  assignment of 70 units to a task from 1970-01-01 to 1970-01-15 gives three buckets.
\<close>

theorem fourteen_day_counterexample:
  "length (timeBasedData (getResourceCurve example_runtime
      (reader_of (Reader_parseContent example_runtime new_Reader example_text14)) (JStr ''R1''))) = 3 \<and>
   map weeklyTargetQty (timeBasedData (getResourceCurve example_runtime
      (reader_of (Reader_parseContent example_runtime new_Reader example_text14)) (JStr ''R1''))) =
     [35, 35, 0] \<and>
   map date (timeBasedData (getResourceCurve example_runtime
      (reader_of (Reader_parseContent example_runtime new_Reader example_text14)) (JStr ''R1''))) =
     [0, 604800000, 1209600000]"
proof -
  let ?rd = "new_Reader\<lparr>activities := [example_task14], activityResources := [example_assignment14]\<rparr>"
  have a: "getResourceAssignmentsByResource ?rd (JStr ''R1'') = [example_assignment14]"
    by (simp add: getResourceAssignmentsByResource_def assignment14_props)
  obtain d where d: "activity_entry example_runtime ?rd example_assignment14 = [d]"
    and sd: "startDate d = Some 0" and ed: "endDate d = Some 1209600000" and q: "targetQty d = 70"
    by (simp add: activity_entry_def task14_props assignment14_props js_or_def
        Let_def convertToNumber_def TimeClip_def maxTime_def)
  have r: "- maxTime \<le> 0" "(0::int) + 1209600000 \<le> maxTime"
    by (simp_all add: maxTime_def)
  have "timeBasedData (getResourceCurve example_runtime ?rd (JStr ''R1'')) =
      week_loop [d] (Some 0) 1209600000"
    by (rule single_entry_curve [OF a d sd ed]) (simp_all add: maxTime_def)
  then have "timeBasedData (getResourceCurve example_runtime ?rd (JStr ''R1'')) =
     [week_point [d] 0, week_point [d] 604800000, week_point [d] 1209600000]"
    using week_loop_two_weeks [OF r, of "[d]"] by simp
  then show ?thesis
    using week_point_two_weeks [of d 0] sd ed q r
    by (simp add: reader14 week_point_frame(1))
qed

end
